theory Spec2Isabelle
  imports Main "HOL-Library.AList"
begin

section \<open>The x402 facilitator service (index.ts)\<close>

text \<open>
  The service is one Express application. Its handlers read five process-wide constants
  taken from the environment at start-up and call a payment-protocol library that is not
  part of the repository: the two schema parsers, \<open>createConnectedClient\<close>,
  \<open>createSigner\<close>, \<open>verify\<close>, \<open>settle\<close>, \<open>isSvmSignerWallet\<close> and the two lists of
  supported network names. The library is a parameter of every handler below; each of its
  functions either returns a value or throws, so it returns a sum whose left side is the
  thrown value. A handler is a function from the library, the environment and the request
  to the response it sends, together with the library calls it made, in order. Console
  output and the wall clock of the log lines are not part of the model.
\<close>

subsection \<open>Thrown values\<close>

text \<open>
  A JavaScript \<open>throw\<close> carries any value. The handlers only ask whether it is an
  \<open>Error\<close> instance, which has a message and a stack, or something else.
\<close>

datatype exn = JsError (message: string) (stack: string) | Thrown string

text \<open>\<open>error instanceof Error ? error.message : fallback\<close>\<close>

fun message_or :: "exn \<Rightarrow> string \<Rightarrow> string" where
  "message_or (JsError m st) fallback = m"
| "message_or (Thrown v) fallback = fallback"

subsection \<open>Configuration read from the environment\<close>

record process_env =
  env_EVM_PRIVATE_KEY :: "string option"
  env_SVM_PRIVATE_KEY :: "string option"
  env_SVM_RPC_URL :: "string option"
  env_SEPOLIA_RPC_URL :: "string option"
  env_FILECOIN_CALIBRATION_RPC_URL :: "string option"

text \<open>\<open>process.env.X || ""\<close>: an unset variable and an empty one both give the empty string.\<close>

definition or_empty :: "string option \<Rightarrow> string" where
  "or_empty v = (case v of None \<Rightarrow> [] | Some s \<Rightarrow> s)"

definition EVM_PRIVATE_KEY :: "process_env \<Rightarrow> string" where
  "EVM_PRIVATE_KEY P = or_empty (env_EVM_PRIVATE_KEY P)"

definition SVM_PRIVATE_KEY :: "process_env \<Rightarrow> string" where
  "SVM_PRIVATE_KEY P = or_empty (env_SVM_PRIVATE_KEY P)"

definition SVM_RPC_URL :: "process_env \<Rightarrow> string" where
  "SVM_RPC_URL P = or_empty (env_SVM_RPC_URL P)"

definition SEPOLIA_RPC_URL :: "process_env \<Rightarrow> string" where
  "SEPOLIA_RPC_URL P = or_empty (env_SEPOLIA_RPC_URL P)"

definition FILECOIN_CALIBRATION_RPC_URL :: "process_env \<Rightarrow> string" where
  "FILECOIN_CALIBRATION_RPC_URL P = or_empty (env_FILECOIN_CALIBRATION_RPC_URL P)"

text \<open>The process exits at start-up unless at least one private key is present.\<close>

definition startup_ok :: "process_env \<Rightarrow> bool" where
  "startup_ok P \<longleftrightarrow> \<not> (EVM_PRIVATE_KEY P = [] \<and> SVM_PRIVATE_KEY P = [])"

record svm_config =
  rpcUrl :: string

record evm_config =
  rpcUrls :: "(string \<times> string) list"

record X402Config =
  svmConfig :: "svm_config option"
  evmConfig :: "evm_config option"

text \<open>
  \<open>x402Config\<close> is \<open>undefined\<close> when no endpoint variable is set. The object
  \<open>rpcUrls\<close> is kept as the list of its entries in insertion order, which is the order
  \<open>Object.entries\<close> walks them in.
\<close>

definition x402Config :: "process_env \<Rightarrow> X402Config option" where
  "x402Config P =
     (if SVM_RPC_URL P \<noteq> [] \<or> SEPOLIA_RPC_URL P \<noteq> [] \<or> FILECOIN_CALIBRATION_RPC_URL P \<noteq> []
      then Some \<lparr>
        svmConfig =
          (if SVM_RPC_URL P \<noteq> [] then Some \<lparr>rpcUrl = SVM_RPC_URL P\<rparr> else None),
        evmConfig =
          (if SEPOLIA_RPC_URL P \<noteq> [] \<or> FILECOIN_CALIBRATION_RPC_URL P \<noteq> []
           then Some \<lparr>rpcUrls =
             (if SEPOLIA_RPC_URL P \<noteq> [] then [(''sepolia'', SEPOLIA_RPC_URL P)] else []) @
             (if FILECOIN_CALIBRATION_RPC_URL P \<noteq> []
              then [(''filecoin-calibration'', FILECOIN_CALIBRATION_RPC_URL P)] else [])\<rparr>
           else None)\<rparr>
      else None)"

text \<open>\<open>x402Config?.evmConfig?.rpcUrls\<close>\<close>

definition evm_rpcUrls :: "X402Config option \<Rightarrow> (string \<times> string) list option" where
  "evm_rpcUrls cfg =
     (case cfg of None \<Rightarrow> None
      | Some c \<Rightarrow> (case evmConfig c of None \<Rightarrow> None | Some e \<Rightarrow> Some (rpcUrls e)))"

text \<open>
  \<open>x402Config?.evmConfig?.rpcUrls?.[network]\<close>, with \<open>None\<close> for \<open>undefined\<close>. The
  lookup is among the keys the object was built with; the property names every JavaScript
  object inherits are not network names and are left out.
\<close>

definition custom_rpcUrl :: "X402Config option \<Rightarrow> string \<Rightarrow> string option" where
  "custom_rpcUrl cfg n = (case evm_rpcUrls cfg of None \<Rightarrow> None | Some us \<Rightarrow> map_of us n)"

subsection \<open>The payment-protocol library\<close>

text \<open>
  A parsed \<open>PaymentRequirements\<close> value has a \<open>network\<close> field; its other fields are the
  extension of the record. The payload, the client, the signer and the two outcomes are
  opaque to the service.
\<close>

record PaymentRequirements =
  network :: string

datatype ('c, 's) provisioned = ConnectedClient 'c | Signer 's

record ('j, 'q, 'p, 'c, 's, 'v, 't) library =
  SupportedEVMNetworks :: "string list"
  SupportedSVMNetworks :: "string list"
  PaymentRequirementsSchema_parse :: "'j \<Rightarrow> exn + 'q PaymentRequirements_scheme"
  PaymentPayloadSchema_parse :: "'j \<Rightarrow> exn + 'p"
  createConnectedClient :: "string \<Rightarrow> string option \<Rightarrow> exn + 'c"
  createSigner :: "string \<Rightarrow> string \<Rightarrow> string option \<Rightarrow> exn + 's"
  verify :: "('c, 's) provisioned \<Rightarrow> 'p \<Rightarrow> 'q PaymentRequirements_scheme
               \<Rightarrow> X402Config option \<Rightarrow> exn + 'v"
  settle :: "'s \<Rightarrow> 'p \<Rightarrow> 'q PaymentRequirements_scheme \<Rightarrow> X402Config option \<Rightarrow> exn + 't"
  isSvmSignerWallet :: "'s \<Rightarrow> bool"
  address :: "'s \<Rightarrow> string"
  getBlockNumber :: "'c \<Rightarrow> exn + int"

text \<open>The library calls a handler makes, with their arguments.\<close>

datatype ('j, 'q, 'p, 'c, 's) call =
    CallParseRequirements 'j
  | CallParsePayload 'j
  | CallCreateConnectedClient string "string option"
  | CallCreateSigner string string "string option"
  | CallVerify "('c, 's) provisioned" 'p "'q PaymentRequirements_scheme" "X402Config option"
  | CallSettle 's 'p "'q PaymentRequirements_scheme" "X402Config option"

text \<open>The schema parsers work on the request body alone; every other call may reach a network.\<close>

fun network_touching :: "('j, 'q, 'p, 'c, 's) call \<Rightarrow> bool" where
  "network_touching (CallParseRequirements j) = False"
| "network_touching (CallParsePayload j) = False"
| "network_touching (CallCreateConnectedClient n u) = True"
| "network_touching (CallCreateSigner n k u) = True"
| "network_touching (CallVerify c p r cfg) = True"
| "network_touching (CallSettle s p r cfg) = True"

fun provisions_signer :: "('j, 'q, 'p, 'c, 's) call \<Rightarrow> bool" where
  "provisions_signer (CallCreateSigner n k u) = True"
| "provisions_signer other = False"

subsection \<open>Requests and responses\<close>

record 'j request_body =
  paymentPayload :: 'j
  paymentRequirements :: 'j

datatype 'a json = ErrorJson string | ResultJson 'a

record 'a response =
  statusCode :: nat
  body :: "'a json"

text \<open>
  An \<open>async\<close> handler either sends a response or its promise rejects with the value
  thrown, and then the handler has sent nothing.
\<close>

datatype 'r outcome = Responded 'r | Rejected exn

subsection \<open>POST /verify\<close>

text \<open>
  The body of the \<open>try\<close> block. \<open>Inl\<close> is a value thrown inside it; \<open>Inr\<close> is the
  response of one of its \<open>res.status(..).json(..)\<close> or \<open>res.json(..)\<close> calls.
\<close>

definition verify_try ::
  "('j, 'q, 'p, 'c, 's, 'v, 't) library \<Rightarrow> process_env \<Rightarrow> 'j request_body
     \<Rightarrow> (exn + 'v response) \<times> ('j, 'q, 'p, 'c, 's) call list" where
  "verify_try L P req =
     (case PaymentRequirementsSchema_parse L (paymentRequirements req) of
        Inl e \<Rightarrow> (Inl e, [CallParseRequirements (paymentRequirements req)])
      | Inr reqs \<Rightarrow>
     (case PaymentPayloadSchema_parse L (paymentPayload req) of
        Inl e \<Rightarrow> (Inl e, [CallParseRequirements (paymentRequirements req),
                           CallParsePayload (paymentPayload req)])
      | Inr payload \<Rightarrow>
     (let parsed = [CallParseRequirements (paymentRequirements req),
                    CallParsePayload (paymentPayload req)]
      in
      if network reqs \<in> set (SupportedEVMNetworks L) then
        (if EVM_PRIVATE_KEY P = [] then
           (Inr \<lparr>statusCode = 503, body = ErrorJson ''EVM payments not supported''\<rparr>, parsed)
         else
           (let rpcUrl = custom_rpcUrl (x402Config P) (network reqs);
                made = parsed @ [CallCreateConnectedClient (network reqs) rpcUrl]
            in case createConnectedClient L (network reqs) rpcUrl of
                 Inl e \<Rightarrow> (Inl e, made)
               | Inr client \<Rightarrow>
                  (let called = made @ [CallVerify (ConnectedClient client) payload reqs (x402Config P)]
                   in case verify L (ConnectedClient client) payload reqs (x402Config P) of
                        Inl e \<Rightarrow> (Inl e, called)
                      | Inr result \<Rightarrow> (Inr \<lparr>statusCode = 200, body = ResultJson result\<rparr>, called))))
      else if network reqs \<in> set (SupportedSVMNetworks L) then
        (if SVM_PRIVATE_KEY P = [] then
           (Inr \<lparr>statusCode = 503, body = ErrorJson ''SVM payments not supported''\<rparr>, parsed)
         else
           (let made = parsed @ [CallCreateSigner (network reqs) (SVM_PRIVATE_KEY P) None]
            in case createSigner L (network reqs) (SVM_PRIVATE_KEY P) None of
                 Inl e \<Rightarrow> (Inl e, made)
               | Inr client \<Rightarrow>
                  (let called = made @ [CallVerify (Signer client) payload reqs (x402Config P)]
                   in case verify L (Signer client) payload reqs (x402Config P) of
                        Inl e \<Rightarrow> (Inl e, called)
                      | Inr result \<Rightarrow> (Inr \<lparr>statusCode = 200, body = ResultJson result\<rparr>, called))))
      else
        (Inr \<lparr>statusCode = 400, body = ErrorJson (''Unsupported network: '' @ network reqs)\<rparr>,
         parsed))))"

text \<open>The handler: the \<open>catch\<close> block answers 400 with the message of what was thrown.\<close>

definition verify_post ::
  "('j, 'q, 'p, 'c, 's, 'v, 't) library \<Rightarrow> process_env \<Rightarrow> 'j request_body
     \<Rightarrow> 'v response outcome \<times> ('j, 'q, 'p, 'c, 's) call list" where
  "verify_post L P req =
     (case verify_try L P req of
        (Inr sent, calls) \<Rightarrow> (Responded sent, calls)
      | (Inl thrown, calls) \<Rightarrow>
          (Responded \<lparr>statusCode = 400, body = ErrorJson (message_or thrown ''Invalid request'')\<rparr>,
           calls))"

subsection \<open>POST /settle\<close>

text \<open>
  The same shape as \<open>/verify\<close>; both families are given a signer, and an EVM signer is
  created with the custom endpoint of its network when there is one.
\<close>

definition settle_try ::
  "('j, 'q, 'p, 'c, 's, 'v, 't) library \<Rightarrow> process_env \<Rightarrow> 'j request_body
     \<Rightarrow> (exn + 't response) \<times> ('j, 'q, 'p, 'c, 's) call list" where
  "settle_try L P req =
     (case PaymentRequirementsSchema_parse L (paymentRequirements req) of
        Inl e \<Rightarrow> (Inl e, [CallParseRequirements (paymentRequirements req)])
      | Inr reqs \<Rightarrow>
     (case PaymentPayloadSchema_parse L (paymentPayload req) of
        Inl e \<Rightarrow> (Inl e, [CallParseRequirements (paymentRequirements req),
                           CallParsePayload (paymentPayload req)])
      | Inr payload \<Rightarrow>
     (let parsed = [CallParseRequirements (paymentRequirements req),
                    CallParsePayload (paymentPayload req)]
      in
      if network reqs \<in> set (SupportedEVMNetworks L) then
        (if EVM_PRIVATE_KEY P = [] then
           (Inr \<lparr>statusCode = 503, body = ErrorJson ''EVM payments not supported''\<rparr>, parsed)
         else
           (let rpcUrl = custom_rpcUrl (x402Config P) (network reqs);
                made = parsed @ [CallCreateSigner (network reqs) (EVM_PRIVATE_KEY P) rpcUrl]
            in case createSigner L (network reqs) (EVM_PRIVATE_KEY P) rpcUrl of
                 Inl e \<Rightarrow> (Inl e, made)
               | Inr signer \<Rightarrow>
                  (let called = made @ [CallSettle signer payload reqs (x402Config P)]
                   in case settle L signer payload reqs (x402Config P) of
                        Inl e \<Rightarrow> (Inl e, called)
                      | Inr resp \<Rightarrow> (Inr \<lparr>statusCode = 200, body = ResultJson resp\<rparr>, called))))
      else if network reqs \<in> set (SupportedSVMNetworks L) then
        (if SVM_PRIVATE_KEY P = [] then
           (Inr \<lparr>statusCode = 503, body = ErrorJson ''SVM payments not supported''\<rparr>, parsed)
         else
           (let made = parsed @ [CallCreateSigner (network reqs) (SVM_PRIVATE_KEY P) None]
            in case createSigner L (network reqs) (SVM_PRIVATE_KEY P) None of
                 Inl e \<Rightarrow> (Inl e, made)
               | Inr signer \<Rightarrow>
                  (let called = made @ [CallSettle signer payload reqs (x402Config P)]
                   in case settle L signer payload reqs (x402Config P) of
                        Inl e \<Rightarrow> (Inl e, called)
                      | Inr resp \<Rightarrow> (Inr \<lparr>statusCode = 200, body = ResultJson resp\<rparr>, called))))
      else
        (Inr \<lparr>statusCode = 400, body = ErrorJson (''Unsupported network: '' @ network reqs)\<rparr>,
         parsed))))"

definition settle_post ::
  "('j, 'q, 'p, 'c, 's, 'v, 't) library \<Rightarrow> process_env \<Rightarrow> 'j request_body
     \<Rightarrow> 't response outcome \<times> ('j, 'q, 'p, 'c, 's) call list" where
  "settle_post L P req =
     (case settle_try L P req of
        (Inr sent, calls) \<Rightarrow> (Responded sent, calls)
      | (Inl thrown, calls) \<Rightarrow>
          (Responded \<lparr>statusCode = 400, body = ErrorJson (message_or thrown ''Settlement failed'')\<rparr>,
           calls))"

text \<open>The calls that provision a client or a signer.\<close>

fun provisioning :: "('j, 'q, 'p, 'c, 's) call \<Rightarrow> bool" where
  "provisioning (CallCreateConnectedClient n u) = True"
| "provisioning (CallCreateSigner n k u) = True"
| "provisioning other = False"

subsection \<open>GET /supported\<close>

record fee_extra =
  feePayer :: "string option"

record SupportedPaymentKind =
  x402Version :: nat
  scheme :: string
  kind_network :: string
  extra :: "fee_extra option"

record supported_body =
  kinds :: "SupportedPaymentKind list"

definition evm_kind :: "string \<Rightarrow> SupportedPaymentKind" where
  "evm_kind n = \<lparr>x402Version = 1, scheme = ''exact'', kind_network = n, extra = None\<rparr>"

definition svm_kind :: "string \<Rightarrow> string option \<Rightarrow> SupportedPaymentKind" where
  "svm_kind n fp =
     \<lparr>x402Version = 1, scheme = ''exact'', kind_network = n, extra = Some \<lparr>feePayer = fp\<rparr>\<rparr>"

text \<open>The network names the handler pushes under each key, in the order of the source.\<close>

definition evm_announced :: "string list" where
  "evm_announced = [''sepolia'', ''base-sepolia'', ''base'', ''mainnet'', ''polygon'',
                    ''avalanche'', ''filecoin'', ''filecoin-calibration'']"

definition svm_announced :: "string list" where
  "svm_announced = [''solana-devnet'', ''solana'']"

text \<open>
  The handler has no \<open>try\<close> block: when \<open>createSigner\<close> throws, the \<open>await\<close> rethrows,
  the handler's promise rejects and \<open>res.json\<close> is never reached.
\<close>

definition supported_get ::
  "('j, 'q, 'p, 'c, 's, 'v, 't) library \<Rightarrow> process_env \<Rightarrow> supported_body response outcome" where
  "supported_get L P =
     (let pushed = (if EVM_PRIVATE_KEY P \<noteq> [] then map evm_kind evm_announced else [])
      in if SVM_PRIVATE_KEY P \<noteq> [] then
           (case createSigner L ''solana-devnet'' (SVM_PRIVATE_KEY P) None of
              Inl e \<Rightarrow> Rejected e
            | Inr signer \<Rightarrow>
               (let fp = (if isSvmSignerWallet L signer then Some (address L signer) else None)
                in Responded \<lparr>statusCode = 200,
                     body = ResultJson \<lparr>kinds = pushed @ map (\<lambda>n. svm_kind n fp) svm_announced\<rparr>\<rparr>))
         else Responded \<lparr>statusCode = 200, body = ResultJson \<lparr>kinds = pushed\<rparr>\<rparr>)"

subsection \<open>GET /health/rpc\<close>

record check =
  healthy :: bool
  latency :: "int option"
  error :: "string option"

record health_body =
  status :: string
  checks :: "(string \<times> check) list"
  timestamp :: int

text \<open>
  The two awaited statements of the \<open>try\<close> block of the EVM loop: create a client on the
  endpoint, then ask it for the block number.
\<close>

definition evm_probe ::
  "('j, 'q, 'p, 'c, 's, 'v, 't) library \<Rightarrow> string \<Rightarrow> string \<Rightarrow> exn + int" where
  "evm_probe L networkName url =
     (case createConnectedClient L networkName (Some url) of
        Inl e \<Rightarrow> Inl e
      | Inr client \<Rightarrow> getBlockNumber L client)"

text \<open>What either branch of the \<open>try\<close>/\<open>catch\<close> stores for a probe that took \<open>ms\<close>.\<close>

definition evm_check :: "exn + int \<Rightarrow> int \<Rightarrow> check" where
  "evm_check probe ms =
     (case probe of
        Inr blockNumber \<Rightarrow> \<lparr>healthy = 0 < blockNumber, latency = Some ms, error = None\<rparr>
      | Inl e \<Rightarrow> \<lparr>healthy = False, latency = Some ms,
                  error = Some (message_or e ''Unknown error'')\<rparr>)"

text \<open>
  The loop over \<open>Object.entries(rpcUrls)\<close>. The state is the \<open>checks\<close> object, as the list
  of its entries (an assignment to a key replaces its value in place or appends it), and
  the number of times \<open>Date.now()\<close> has been read; \<open>clock i\<close> is the value of reading
  number \<open>i\<close>.
\<close>

fun health_evm_loop ::
  "('j, 'q, 'p, 'c, 's, 'v, 't) library \<Rightarrow> (nat \<Rightarrow> int) \<Rightarrow> (string \<times> string) list
     \<Rightarrow> (string \<times> check) list \<times> nat \<Rightarrow> (string \<times> check) list \<times> nat" where
  "health_evm_loop L clock [] st = st"
| "health_evm_loop L clock ((networkName, url) # rest) (cs, t) =
     (if url = [] then health_evm_loop L clock rest (cs, t)
      else health_evm_loop L clock rest
             (AList.update networkName
                (evm_check (evm_probe L networkName url) (clock (t + 1) - clock t)) cs,
              t + 2))"

definition health_svm ::
  "('j, 'q, 'p, 'c, 's, 'v, 't) library \<Rightarrow> process_env \<Rightarrow> (nat \<Rightarrow> int)
     \<Rightarrow> (string \<times> check) list \<times> nat \<Rightarrow> (string \<times> check) list \<times> nat" where
  "health_svm L P clock st =
     (case st of (cs, t) \<Rightarrow>
        if SVM_RPC_URL P \<noteq> [] \<and> SVM_PRIVATE_KEY P \<noteq> [] then
          (case createSigner L ''solana-devnet'' (SVM_PRIVATE_KEY P) None of
             Inr signer \<Rightarrow>
               if isSvmSignerWallet L signer
               then (AList.update ''solana-devnet''
                       \<lparr>healthy = True, latency = Some (clock (t + 1) - clock t), error = None\<rparr> cs,
                     t + 2)
               else (cs, t + 1)
           | Inl e \<Rightarrow>
               (AList.update ''solana-devnet''
                  \<lparr>healthy = False, latency = Some (clock (t + 1) - clock t),
                   error = Some (message_or e ''Unknown error'')\<rparr> cs,
                t + 2))
        else (cs, t))"

definition health_evm ::
  "('j, 'q, 'p, 'c, 's, 'v, 't) library \<Rightarrow> process_env \<Rightarrow> (nat \<Rightarrow> int)
     \<Rightarrow> (string \<times> check) list \<times> nat \<Rightarrow> (string \<times> check) list \<times> nat" where
  "health_evm L P clock st =
     (case evm_rpcUrls (x402Config P) of
        None \<Rightarrow> st
      | Some us \<Rightarrow> if EVM_PRIVATE_KEY P \<noteq> [] then health_evm_loop L clock us st else st)"

definition health_rpc_get ::
  "('j, 'q, 'p, 'c, 's, 'v, 't) library \<Rightarrow> process_env \<Rightarrow> (nat \<Rightarrow> int)
     \<Rightarrow> health_body response outcome" where
  "health_rpc_get L P clock =
     (case health_svm L P clock (health_evm L P clock ([], 0)) of
        (cs, t) \<Rightarrow>
          (let allHealthy = list_all (\<lambda>(n, c). healthy c) cs
           in Responded
                \<lparr>statusCode = (if allHealthy then 200 else 503),
                 body = ResultJson
                   \<lparr>status = (if allHealthy then ''healthy'' else ''degraded''),
                    checks = cs, timestamp = clock t\<rparr>\<rparr>))"

subsection \<open>Notions used to state the properties\<close>

text \<open>
  The family a network name is dispatched to: the two membership tests of \<open>/verify\<close> and
  \<open>/settle\<close>, in their order.
\<close>

definition classify ::
  "('j, 'q, 'p, 'c, 's, 'v, 't) library \<Rightarrow> string \<Rightarrow> string option" where
  "classify L n =
     (if n \<in> set (SupportedEVMNetworks L) then Some ''EVM''
      else if n \<in> set (SupportedSVMNetworks L) then Some ''SVM''
      else None)"

text \<open>The entries the EVM loop of \<open>/health/rpc\<close> walks: none without the EVM key.\<close>

definition probed_urls :: "process_env \<Rightarrow> (string \<times> string) list" where
  "probed_urls P =
     (if EVM_PRIVATE_KEY P = [] then []
      else case evm_rpcUrls (x402Config P) of None \<Rightarrow> [] | Some us \<Rightarrow> us)"

text \<open>Whether the SVM probe stores an entry: it ran, and it threw or gave an SVM signer.\<close>

definition svm_entry_written ::
  "('j, 'q, 'p, 'c, 's, 'v, 't) library \<Rightarrow> process_env \<Rightarrow> bool" where
  "svm_entry_written L P \<longleftrightarrow>
     SVM_RPC_URL P \<noteq> [] \<and> SVM_PRIVATE_KEY P \<noteq> []
     \<and> (case createSigner L ''solana-devnet'' (SVM_PRIVATE_KEY P) None of
          Inl e \<Rightarrow> True
        | Inr signer \<Rightarrow> isSvmSignerWallet L signer)"

subsection \<open>A test library, environments and requests\<close>

text \<open>
  A stand-in for the payment-protocol library, used to run the handlers on concrete
  requests. Its registries are the names the service announces; a raw requirements value
  is the network name it parses to, and the empty text fails validation. The variants
  throw from one operation each.
\<close>

definition zod_error :: exn where
  "zod_error = JsError ''Required'' ''ZodError: Required at PaymentRequirementsSchema.parse''"

definition demo_library ::
  "(string, unit, string, string \<times> string option, string, bool, string) library" where
  "demo_library =
     \<lparr>SupportedEVMNetworks = evm_announced,
      SupportedSVMNetworks = svm_announced,
      PaymentRequirementsSchema_parse =
        (\<lambda>j. if j = [] then Inl zod_error else Inr \<lparr>network = j\<rparr>),
      PaymentPayloadSchema_parse = (\<lambda>j. if j = [] then Inl zod_error else Inr j),
      createConnectedClient = (\<lambda>n u. Inr (n, u)),
      createSigner = (\<lambda>n k u. Inr n),
      verify = (\<lambda>c p r cfg. Inr True),
      settle = (\<lambda>s p r cfg. Inr ''0xtx''),
      isSvmSignerWallet = (\<lambda>s. s \<in> set svm_announced),
      address = (\<lambda>s. ''FeePayer1111''),
      getBlockNumber = (\<lambda>c. Inr 19)\<rparr>"

definition faulty_library ::
  "(string, unit, string, string \<times> string option, string, bool, string) library" where
  "faulty_library = demo_library
     \<lparr>createConnectedClient :=
        (\<lambda>n u. if n = ''base''
               then Inl (JsError ''connect ECONNREFUSED'' ''Error: connect ECONNREFUSED at TCP'')
               else Inr (n, u)),
      createSigner :=
        (\<lambda>n k u. if n = ''polygon'' \<or> n = ''solana''
                 then Inl (JsError ''invalid private key'' ''Error: invalid private key at createSigner'')
                 else Inr n),
      verify :=
        (\<lambda>c p r cfg. if p = ''forged''
                      then Inl (JsError ''invalid signature'' ''Error: invalid signature at verify'')
                      else Inr True),
      settle :=
        (\<lambda>s p r cfg. if p = ''forged'' then Inl (Thrown ''insufficient funds'') else Inr ''0xtx'')\<rparr>"

definition outage_library ::
  "(string, unit, string, string \<times> string option, string, bool, string) library" where
  "outage_library = demo_library
     \<lparr>createConnectedClient :=
        (\<lambda>n u. if n = ''sepolia''
               then Inl (JsError ''request timed out'' ''Error: request timed out at fetch'')
               else Inr (n, u))\<rparr>"

definition keyless_library ::
  "(string, unit, string, string \<times> string option, string, bool, string) library" where
  "keyless_library = demo_library
     \<lparr>createSigner :=
        (\<lambda>n k u. Inl (JsError ''invalid private key'' ''Error: invalid private key at createSigner''))\<rparr>"

definition evm_env :: process_env where
  "evm_env = \<lparr>env_EVM_PRIVATE_KEY = Some ''0xe1'', env_SVM_PRIVATE_KEY = None,
     env_SVM_RPC_URL = None, env_SEPOLIA_RPC_URL = Some ''https://sepolia.example'',
     env_FILECOIN_CALIBRATION_RPC_URL = None\<rparr>"

definition svm_env :: process_env where
  "svm_env = \<lparr>env_EVM_PRIVATE_KEY = None, env_SVM_PRIVATE_KEY = Some ''5vmKey'',
     env_SVM_RPC_URL = Some ''https://solana.example'', env_SEPOLIA_RPC_URL = None,
     env_FILECOIN_CALIBRATION_RPC_URL = None\<rparr>"

definition both_env :: process_env where
  "both_env = \<lparr>env_EVM_PRIVATE_KEY = Some ''0xe1'', env_SVM_PRIVATE_KEY = Some ''5vmKey'',
     env_SVM_RPC_URL = Some ''https://solana.example'',
     env_SEPOLIA_RPC_URL = Some ''https://sepolia.example'',
     env_FILECOIN_CALIBRATION_RPC_URL = Some ''https://calibration.example''\<rparr>"

definition bare_env :: process_env where
  "bare_env = \<lparr>env_EVM_PRIVATE_KEY = Some ''0xe1'', env_SVM_PRIVATE_KEY = None,
     env_SVM_RPC_URL = None, env_SEPOLIA_RPC_URL = None,
     env_FILECOIN_CALIBRATION_RPC_URL = None\<rparr>"

definition mismatched_env :: process_env where
  "mismatched_env = \<lparr>env_EVM_PRIVATE_KEY = None, env_SVM_PRIVATE_KEY = Some ''5vmKey'',
     env_SVM_RPC_URL = Some [], env_SEPOLIA_RPC_URL = Some ''https://sepolia.example'',
     env_FILECOIN_CALIBRATION_RPC_URL = None\<rparr>"

definition request_on :: "string \<Rightarrow> string request_body" where
  "request_on n = \<lparr>paymentPayload = ''signed'', paymentRequirements = n\<rparr>"

definition unsigned_request :: "string \<Rightarrow> string request_body" where
  "unsigned_request n = \<lparr>paymentPayload = [], paymentRequirements = n\<rparr>"

definition forged_request :: "string \<Rightarrow> string request_body" where
  "forged_request n = \<lparr>paymentPayload = ''forged'', paymentRequirements = n\<rparr>"

definition demo_clock :: "nat \<Rightarrow> int" where
  "demo_clock i = 1000 + 7 * int i"

definition outage_checks :: "(string \<times> check) list" where
  "outage_checks =
     [(''sepolia'', \<lparr>healthy = False, latency = Some 7, error = Some ''request timed out''\<rparr>),
      (''filecoin-calibration'', \<lparr>healthy = True, latency = Some 7, error = None\<rparr>),
      (''solana-devnet'', \<lparr>healthy = True, latency = Some 7, error = None\<rparr>)]"

section \<open>Evaluating the test library\<close>

lemmas env_defs = EVM_PRIVATE_KEY_def SVM_PRIVATE_KEY_def SVM_RPC_URL_def SEPOLIA_RPC_URL_def
  FILECOIN_CALIBRATION_RPC_URL_def or_empty_def

lemmas handler_defs = verify_post_def verify_try_def settle_post_def settle_try_def

lemmas demo_defs = demo_library_def request_on_def unsigned_request_def evm_env_def svm_env_def
  both_env_def env_defs x402Config_def custom_rpcUrl_def evm_rpcUrls_def evm_announced_def
  svm_announced_def zod_error_def Let_def

lemmas faulty_defs = faulty_library_def forged_request_def demo_defs

lemma demo_parse_requirements:
  "n \<noteq> [] \<Longrightarrow> PaymentRequirementsSchema_parse demo_library (paymentRequirements (request_on n))
     = Inr \<lparr>network = n\<rparr>"
  by (simp add: demo_library_def request_on_def)

lemma demo_parse_payload:
  "PaymentPayloadSchema_parse demo_library (paymentPayload (request_on n)) = Inr ''signed''"
  by (simp add: demo_library_def request_on_def)

lemma demo_sepolia_evm: "network \<lparr>network = ''sepolia''\<rparr> \<in> set (SupportedEVMNetworks demo_library)"
  by (simp add: demo_library_def evm_announced_def)

lemma demo_solana_svm:
  "network \<lparr>network = ''solana-devnet''\<rparr> \<notin> set (SupportedEVMNetworks demo_library)
   \<and> network \<lparr>network = ''solana-devnet''\<rparr> \<in> set (SupportedSVMNetworks demo_library)"
  by (simp add: demo_library_def evm_announced_def svm_announced_def)

lemma demo_keys:
  "EVM_PRIVATE_KEY evm_env = ''0xe1''" "SVM_PRIVATE_KEY evm_env = []"
  "EVM_PRIVATE_KEY svm_env = []" "SVM_PRIVATE_KEY svm_env = ''5vmKey''"
  "EVM_PRIVATE_KEY both_env = ''0xe1''" "SVM_PRIVATE_KEY both_env = ''5vmKey''"
  by (simp_all add: env_defs evm_env_def svm_env_def both_env_def)

lemma demo_urls:
  "SEPOLIA_RPC_URL both_env = ''https://sepolia.example''"
  "FILECOIN_CALIBRATION_RPC_URL both_env = ''https://calibration.example''"
  "SVM_RPC_URL both_env = ''https://solana.example''"
  by (simp_all add: env_defs both_env_def)

lemma demo_registries:
  "SupportedEVMNetworks demo_library = evm_announced"
  "SupportedSVMNetworks demo_library = svm_announced"
  by (simp_all add: demo_library_def)

section \<open>The dispatch handlers\<close>

text \<open>
  C1, as stated, at an SVM request. The network is in the SVM list and the SVM key is
  set, and \<open>/verify\<close> calls \<open>createSigner\<close> with the private key and hands the signer to
  the external verification: no connected client is created.
\<close>

theorem verify_svm_provisions_signer:
  "network \<lparr>network = ''solana-devnet''\<rparr> \<in> set (SupportedSVMNetworks demo_library)
   \<and> SVM_PRIVATE_KEY svm_env = ''5vmKey''
   \<and> verify_post demo_library svm_env (request_on ''solana-devnet'') =
       (Responded \<lparr>statusCode = 200, body = ResultJson True\<rparr>,
        [CallParseRequirements ''solana-devnet'', CallParsePayload ''signed'',
         CallCreateSigner ''solana-devnet'' ''5vmKey'' None,
         CallVerify (Signer ''solana-devnet'') ''signed'' \<lparr>network = ''solana-devnet''\<rparr>
           (Some \<lparr>svmConfig = Some \<lparr>rpcUrl = ''https://solana.example''\<rparr>, evmConfig = None\<rparr>)])"
  by (simp add: verify_post_def verify_try_def demo_defs)

text \<open>
  C1, amended. For a verify request that passes both schemas: on an EVM network with the
  EVM key set, the handler creates a read-only connected client, creates no signer, and
  invokes the external verification with that client, after the client was created; on an
  SVM network with the SVM key set, it creates a signer from the SVM private key and
  invokes the external verification with that signer.
\<close>

theorem verify_provisioning_by_family:
  assumes "PaymentRequirementsSchema_parse L (paymentRequirements req) = Inr reqs"
    and "PaymentPayloadSchema_parse L (paymentPayload req) = Inr payload"
  shows "(network reqs \<in> set (SupportedEVMNetworks L) \<and> EVM_PRIVATE_KEY P \<noteq> [] \<longrightarrow>
            snd (verify_post L P req) =
              [CallParseRequirements (paymentRequirements req),
               CallParsePayload (paymentPayload req),
               CallCreateConnectedClient (network reqs)
                 (custom_rpcUrl (x402Config P) (network reqs))] @
              (case createConnectedClient L (network reqs)
                      (custom_rpcUrl (x402Config P) (network reqs)) of
                 Inl e \<Rightarrow> []
               | Inr client \<Rightarrow> [CallVerify (ConnectedClient client) payload reqs (x402Config P)])
          \<and> filter provisions_signer (snd (verify_post L P req)) = [])
       \<and> (network reqs \<notin> set (SupportedEVMNetworks L)
            \<and> network reqs \<in> set (SupportedSVMNetworks L) \<and> SVM_PRIVATE_KEY P \<noteq> [] \<longrightarrow>
            snd (verify_post L P req) =
              [CallParseRequirements (paymentRequirements req),
               CallParsePayload (paymentPayload req),
               CallCreateSigner (network reqs) (SVM_PRIVATE_KEY P) None] @
              (case createSigner L (network reqs) (SVM_PRIVATE_KEY P) None of
                 Inl e \<Rightarrow> []
               | Inr signer \<Rightarrow> [CallVerify (Signer signer) payload reqs (x402Config P)]))"
  using assms by (simp add: verify_post_def verify_try_def Let_def split: sum.split)

theorem verify_provisioning_by_family_witness:
  "snd (verify_post demo_library both_env (request_on ''sepolia'')) =
     [CallParseRequirements ''sepolia'', CallParsePayload ''signed'',
      CallCreateConnectedClient ''sepolia'' (Some ''https://sepolia.example''),
      CallVerify (ConnectedClient (''sepolia'', Some ''https://sepolia.example'')) ''signed''
        \<lparr>network = ''sepolia''\<rparr> (x402Config both_env)]
   \<and> filter provisions_signer (snd (verify_post demo_library both_env (request_on ''sepolia''))) = []
   \<and> snd (verify_post demo_library both_env (request_on ''solana'')) =
     [CallParseRequirements ''solana'', CallParsePayload ''signed'',
      CallCreateSigner ''solana'' ''5vmKey'' None,
      CallVerify (Signer ''solana'') ''signed'' \<lparr>network = ''solana''\<rparr> (x402Config both_env)]"
proof -
  have a: "PaymentRequirementsSchema_parse demo_library (paymentRequirements (request_on ''sepolia''))
           = Inr \<lparr>network = ''sepolia''\<rparr>"
    by (simp add: demo_parse_requirements)
  have b: "PaymentRequirementsSchema_parse demo_library (paymentRequirements (request_on ''solana''))
           = Inr \<lparr>network = ''solana''\<rparr>"
    by (simp add: demo_parse_requirements)
  have u: "custom_rpcUrl (x402Config both_env) ''sepolia'' = Some ''https://sepolia.example''"
    by (simp add: demo_defs)
  have l: "SupportedEVMNetworks demo_library = evm_announced"
    "SupportedSVMNetworks demo_library = svm_announced"
    "createConnectedClient demo_library = (\<lambda>n u. Inr (n, u))"
    "createSigner demo_library = (\<lambda>n k u. Inr n)"
    by (simp_all add: demo_library_def)
  from verify_provisioning_by_family [OF a demo_parse_payload, of both_env]
  have "snd (verify_post demo_library both_env (request_on ''sepolia'')) =
     [CallParseRequirements ''sepolia'', CallParsePayload ''signed'',
      CallCreateConnectedClient ''sepolia'' (Some ''https://sepolia.example''),
      CallVerify (ConnectedClient (''sepolia'', Some ''https://sepolia.example'')) ''signed''
        \<lparr>network = ''sepolia''\<rparr> (x402Config both_env)]
   \<and> filter provisions_signer (snd (verify_post demo_library both_env (request_on ''sepolia''))) = []"
    by (simp add: u l demo_keys evm_announced_def request_on_def)
  moreover
  from verify_provisioning_by_family [OF b demo_parse_payload, of both_env]
  have "snd (verify_post demo_library both_env (request_on ''solana'')) =
     [CallParseRequirements ''solana'', CallParsePayload ''signed'',
      CallCreateSigner ''solana'' ''5vmKey'' None,
      CallVerify (Signer ''solana'') ''signed'' \<lparr>network = ''solana''\<rparr> (x402Config both_env)]"
    by (simp add: l demo_keys evm_announced_def svm_announced_def request_on_def)
  ultimately show ?thesis by simp
qed

text \<open>
  C2. A verify or settle request that passes both schemas and names a network that is in
  neither the EVM nor the SVM list is answered with status 400 and the body
  \<open>{error: "Unsupported network: <network>"}\<close>, and the handler makes no
  network-touching call: no client or signer is created and the external operation is not
  invoked.
\<close>

theorem unsupported_network_400:
  assumes "PaymentRequirementsSchema_parse L (paymentRequirements req) = Inr reqs"
    and "PaymentPayloadSchema_parse L (paymentPayload req) = Inr payload"
    and "network reqs \<notin> set (SupportedEVMNetworks L)"
    and "network reqs \<notin> set (SupportedSVMNetworks L)"
  shows "fst (verify_post L P req) =
           Responded \<lparr>statusCode = 400,
                      body = ErrorJson (''Unsupported network: '' @ network reqs)\<rparr>
       \<and> fst (settle_post L P req) =
           Responded \<lparr>statusCode = 400,
                      body = ErrorJson (''Unsupported network: '' @ network reqs)\<rparr>
       \<and> filter network_touching (snd (verify_post L P req)) = []
       \<and> filter network_touching (snd (settle_post L P req)) = []"
  using assms by (simp add: verify_post_def verify_try_def settle_post_def settle_try_def)

theorem unsupported_network_400_witness:
  "fst (verify_post demo_library evm_env (request_on ''unknown-chain'')) =
     Responded \<lparr>statusCode = 400, body = ErrorJson ''Unsupported network: unknown-chain''\<rparr>
   \<and> fst (settle_post demo_library evm_env (request_on ''unknown-chain'')) =
     Responded \<lparr>statusCode = 400, body = ErrorJson ''Unsupported network: unknown-chain''\<rparr>
   \<and> filter network_touching
       (snd (verify_post demo_library evm_env (request_on ''unknown-chain''))) = []
   \<and> filter network_touching
       (snd (settle_post demo_library evm_env (request_on ''unknown-chain''))) = []"
proof -
  have a: "PaymentRequirementsSchema_parse demo_library
             (paymentRequirements (request_on ''unknown-chain''))
           = Inr \<lparr>network = ''unknown-chain''\<rparr>"
    by (simp add: demo_parse_requirements)
  have c: "network \<lparr>network = ''unknown-chain''\<rparr> \<notin> set (SupportedEVMNetworks demo_library)"
    by (simp add: demo_library_def evm_announced_def)
  have d: "network \<lparr>network = ''unknown-chain''\<rparr> \<notin> set (SupportedSVMNetworks demo_library)"
    by (simp add: demo_library_def svm_announced_def)
  from unsupported_network_400 [OF a demo_parse_payload c d, of evm_env]
  show ?thesis by simp
qed

text \<open>
  C3. A verify or settle request that passes both schemas and whose network belongs to a
  family with an empty private key is answered with status 503 and the body
  \<open>{error: "EVM payments not supported"}\<close> or \<open>{error: "SVM payments not supported"}\<close>;
  the only calls made are the two schema parsers, so nothing was provisioned.
\<close>

theorem credentials_not_configured_503:
  assumes "PaymentRequirementsSchema_parse L (paymentRequirements req) = Inr reqs"
    and "PaymentPayloadSchema_parse L (paymentPayload req) = Inr payload"
  shows "(network reqs \<in> set (SupportedEVMNetworks L) \<and> EVM_PRIVATE_KEY P = [] \<longrightarrow>
            verify_post L P req =
              (Responded \<lparr>statusCode = 503, body = ErrorJson ''EVM payments not supported''\<rparr>,
               [CallParseRequirements (paymentRequirements req),
                CallParsePayload (paymentPayload req)])
          \<and> settle_post L P req =
              (Responded \<lparr>statusCode = 503, body = ErrorJson ''EVM payments not supported''\<rparr>,
               [CallParseRequirements (paymentRequirements req),
                CallParsePayload (paymentPayload req)]))
       \<and> (network reqs \<notin> set (SupportedEVMNetworks L)
            \<and> network reqs \<in> set (SupportedSVMNetworks L) \<and> SVM_PRIVATE_KEY P = [] \<longrightarrow>
            verify_post L P req =
              (Responded \<lparr>statusCode = 503, body = ErrorJson ''SVM payments not supported''\<rparr>,
               [CallParseRequirements (paymentRequirements req),
                CallParsePayload (paymentPayload req)])
          \<and> settle_post L P req =
              (Responded \<lparr>statusCode = 503, body = ErrorJson ''SVM payments not supported''\<rparr>,
               [CallParseRequirements (paymentRequirements req),
                CallParsePayload (paymentPayload req)]))"
  using assms by (simp add: handler_defs)

theorem credentials_not_configured_503_witness:
  "verify_post demo_library svm_env (request_on ''sepolia'') =
     (Responded \<lparr>statusCode = 503, body = ErrorJson ''EVM payments not supported''\<rparr>,
      [CallParseRequirements ''sepolia'', CallParsePayload ''signed''])
   \<and> settle_post demo_library evm_env (request_on ''solana-devnet'') =
     (Responded \<lparr>statusCode = 503, body = ErrorJson ''SVM payments not supported''\<rparr>,
      [CallParseRequirements ''solana-devnet'', CallParsePayload ''signed''])"
proof -
  have a: "PaymentRequirementsSchema_parse demo_library (paymentRequirements (request_on ''sepolia''))
           = Inr \<lparr>network = ''sepolia''\<rparr>"
    by (simp add: demo_parse_requirements)
  have b: "PaymentRequirementsSchema_parse demo_library
             (paymentRequirements (request_on ''solana-devnet''))
           = Inr \<lparr>network = ''solana-devnet''\<rparr>"
    by (simp add: demo_parse_requirements)
  from credentials_not_configured_503 [OF a demo_parse_payload, of svm_env]
       demo_sepolia_evm demo_keys(3)
  have "verify_post demo_library svm_env (request_on ''sepolia'') =
     (Responded \<lparr>statusCode = 503, body = ErrorJson ''EVM payments not supported''\<rparr>,
      [CallParseRequirements ''sepolia'', CallParsePayload ''signed''])"
    by (simp add: request_on_def)
  moreover
  from credentials_not_configured_503 [OF b demo_parse_payload, of evm_env]
       demo_solana_svm demo_keys(2)
  have "settle_post demo_library evm_env (request_on ''solana-devnet'') =
     (Responded \<lparr>statusCode = 503, body = ErrorJson ''SVM payments not supported''\<rparr>,
      [CallParseRequirements ''solana-devnet'', CallParsePayload ''signed''])"
    by (simp add: request_on_def)
  ultimately show ?thesis by simp
qed

lemma verify_bad_requirements:
  "PaymentRequirementsSchema_parse L (paymentRequirements req) = Inl e \<Longrightarrow>
     verify_post L P req =
       (Responded \<lparr>statusCode = 400, body = ErrorJson (message_or e ''Invalid request'')\<rparr>,
        [CallParseRequirements (paymentRequirements req)])"
  by (simp add: verify_post_def verify_try_def)

lemma settle_bad_requirements:
  "PaymentRequirementsSchema_parse L (paymentRequirements req) = Inl e \<Longrightarrow>
     settle_post L P req =
       (Responded \<lparr>statusCode = 400, body = ErrorJson (message_or e ''Settlement failed'')\<rparr>,
        [CallParseRequirements (paymentRequirements req)])"
  by (simp add: settle_post_def settle_try_def)

lemma verify_bad_payload:
  "PaymentRequirementsSchema_parse L (paymentRequirements req) = Inr reqs \<Longrightarrow>
   PaymentPayloadSchema_parse L (paymentPayload req) = Inl e \<Longrightarrow>
     verify_post L P req =
       (Responded \<lparr>statusCode = 400, body = ErrorJson (message_or e ''Invalid request'')\<rparr>,
        [CallParseRequirements (paymentRequirements req),
         CallParsePayload (paymentPayload req)])"
  by (simp add: verify_post_def verify_try_def)

lemma settle_bad_payload:
  "PaymentRequirementsSchema_parse L (paymentRequirements req) = Inr reqs \<Longrightarrow>
   PaymentPayloadSchema_parse L (paymentPayload req) = Inl e \<Longrightarrow>
     settle_post L P req =
       (Responded \<lparr>statusCode = 400, body = ErrorJson (message_or e ''Settlement failed'')\<rparr>,
        [CallParseRequirements (paymentRequirements req),
         CallParsePayload (paymentPayload req)])"
  by (simp add: settle_post_def settle_try_def)

lemma verify_calls_start:
  "PaymentRequirementsSchema_parse L (paymentRequirements req) = Inr reqs \<Longrightarrow>
   PaymentPayloadSchema_parse L (paymentPayload req) = Inr payload \<Longrightarrow>
     take 2 (snd (verify_post L P req)) =
       [CallParseRequirements (paymentRequirements req), CallParsePayload (paymentPayload req)]"
  by (simp add: verify_post_def verify_try_def Let_def split: sum.split)

lemma settle_calls_start:
  "PaymentRequirementsSchema_parse L (paymentRequirements req) = Inr reqs \<Longrightarrow>
   PaymentPayloadSchema_parse L (paymentPayload req) = Inr payload \<Longrightarrow>
     take 2 (snd (settle_post L P req)) =
       [CallParseRequirements (paymentRequirements req), CallParsePayload (paymentPayload req)]"
  by (simp add: settle_post_def settle_try_def Let_def split: sum.split)

lemma verify_validates_first:
  assumes "filter network_touching (snd (verify_post L P req)) \<noteq> []"
  shows "isl (PaymentRequirementsSchema_parse L (paymentRequirements req)) = False
       \<and> isl (PaymentPayloadSchema_parse L (paymentPayload req)) = False
       \<and> take 2 (snd (verify_post L P req)) =
           [CallParseRequirements (paymentRequirements req),
            CallParsePayload (paymentPayload req)]"
proof (cases "PaymentRequirementsSchema_parse L (paymentRequirements req)")
  case (Inl e)
  with assms show ?thesis by (simp add: verify_bad_requirements)
next
  case reqs: (Inr reqs)
  show ?thesis
  proof (cases "PaymentPayloadSchema_parse L (paymentPayload req)")
    case (Inl e)
    with assms reqs show ?thesis by (simp add: verify_bad_payload)
  next
    case (Inr payload)
    with reqs verify_calls_start [OF reqs Inr] show ?thesis by simp
  qed
qed

lemma settle_validates_first:
  assumes "filter network_touching (snd (settle_post L P req)) \<noteq> []"
  shows "isl (PaymentRequirementsSchema_parse L (paymentRequirements req)) = False
       \<and> isl (PaymentPayloadSchema_parse L (paymentPayload req)) = False
       \<and> take 2 (snd (settle_post L P req)) =
           [CallParseRequirements (paymentRequirements req),
            CallParsePayload (paymentPayload req)]"
proof (cases "PaymentRequirementsSchema_parse L (paymentRequirements req)")
  case (Inl e)
  with assms show ?thesis by (simp add: settle_bad_requirements)
next
  case reqs: (Inr reqs)
  show ?thesis
  proof (cases "PaymentPayloadSchema_parse L (paymentPayload req)")
    case (Inl e)
    with assms reqs show ?thesis by (simp add: settle_bad_payload)
  next
    case (Inr payload)
    with reqs settle_calls_start [OF reqs Inr] show ?thesis by simp
  qed
qed

text \<open>
  C4. Both schemas are checked before any network-touching call. When the requirements
  fail validation, or the requirements pass and the payload fails, verify and settle
  answer 400 with the message of the validation error and the calls made are the parsers
  alone. Whenever a handler makes a network-touching call, both parsers had succeeded and
  their two calls are the first two of the run.
\<close>

theorem malformed_request_400:
  "(PaymentRequirementsSchema_parse L (paymentRequirements req) = Inl e \<longrightarrow>
      verify_post L P req =
        (Responded \<lparr>statusCode = 400, body = ErrorJson (message_or e ''Invalid request'')\<rparr>,
         [CallParseRequirements (paymentRequirements req)])
    \<and> settle_post L P req =
        (Responded \<lparr>statusCode = 400, body = ErrorJson (message_or e ''Settlement failed'')\<rparr>,
         [CallParseRequirements (paymentRequirements req)]))
   \<and> (PaymentRequirementsSchema_parse L (paymentRequirements req) = Inr reqs
        \<and> PaymentPayloadSchema_parse L (paymentPayload req) = Inl e \<longrightarrow>
      verify_post L P req =
        (Responded \<lparr>statusCode = 400, body = ErrorJson (message_or e ''Invalid request'')\<rparr>,
         [CallParseRequirements (paymentRequirements req),
          CallParsePayload (paymentPayload req)])
    \<and> settle_post L P req =
        (Responded \<lparr>statusCode = 400, body = ErrorJson (message_or e ''Settlement failed'')\<rparr>,
         [CallParseRequirements (paymentRequirements req),
          CallParsePayload (paymentPayload req)]))
   \<and> (filter network_touching (snd (verify_post L P req)) \<noteq> [] \<longrightarrow>
        isl (PaymentRequirementsSchema_parse L (paymentRequirements req)) = False
      \<and> isl (PaymentPayloadSchema_parse L (paymentPayload req)) = False
      \<and> take 2 (snd (verify_post L P req)) =
          [CallParseRequirements (paymentRequirements req),
           CallParsePayload (paymentPayload req)])
   \<and> (filter network_touching (snd (settle_post L P req)) \<noteq> [] \<longrightarrow>
        isl (PaymentRequirementsSchema_parse L (paymentRequirements req)) = False
      \<and> isl (PaymentPayloadSchema_parse L (paymentPayload req)) = False
      \<and> take 2 (snd (settle_post L P req)) =
          [CallParseRequirements (paymentRequirements req),
           CallParsePayload (paymentPayload req)])"
  using verify_bad_requirements [of L req e P] settle_bad_requirements [of L req e P]
    verify_bad_payload [of L req reqs e P] settle_bad_payload [of L req reqs e P]
    verify_validates_first [of L P req] settle_validates_first [of L P req]
  by blast

theorem malformed_request_400_witness:
  "verify_post demo_library evm_env (request_on []) =
     (Responded \<lparr>statusCode = 400, body = ErrorJson ''Required''\<rparr>, [CallParseRequirements []])
   \<and> settle_post demo_library evm_env (unsigned_request ''sepolia'') =
     (Responded \<lparr>statusCode = 400, body = ErrorJson ''Required''\<rparr>,
      [CallParseRequirements ''sepolia'', CallParsePayload []])
   \<and> take 2 (snd (verify_post demo_library evm_env (request_on ''sepolia''))) =
       [CallParseRequirements ''sepolia'', CallParsePayload ''signed'']
   \<and> take 2 (snd (settle_post demo_library evm_env (request_on ''sepolia''))) =
       [CallParseRequirements ''sepolia'', CallParsePayload ''signed'']"
proof -
  have a: "PaymentRequirementsSchema_parse demo_library (paymentRequirements (request_on []))
           = Inl zod_error"
    by (simp add: demo_library_def request_on_def)
  have b: "PaymentRequirementsSchema_parse demo_library
             (paymentRequirements (unsigned_request ''sepolia'')) = Inr \<lparr>network = ''sepolia''\<rparr>
         \<and> PaymentPayloadSchema_parse demo_library
             (paymentPayload (unsigned_request ''sepolia'')) = Inl zod_error"
    by (simp add: demo_library_def unsigned_request_def)
  have c: "filter network_touching (snd (verify_post demo_library evm_env (request_on ''sepolia'')))
           \<noteq> []"
    by (simp add: verify_post_def verify_try_def demo_defs)
  have d: "filter network_touching (snd (settle_post demo_library evm_env (request_on ''sepolia'')))
           \<noteq> []"
    by (simp add: settle_post_def settle_try_def demo_defs)
  from malformed_request_400 [of demo_library "request_on []" zod_error evm_env] a
  have "verify_post demo_library evm_env (request_on []) =
     (Responded \<lparr>statusCode = 400, body = ErrorJson ''Required''\<rparr>, [CallParseRequirements []])"
    by (simp add: zod_error_def request_on_def)
  moreover
  from malformed_request_400 [of demo_library "unsigned_request ''sepolia''" zod_error evm_env
         "\<lparr>network = ''sepolia''\<rparr>"] b
  have "settle_post demo_library evm_env (unsigned_request ''sepolia'') =
     (Responded \<lparr>statusCode = 400, body = ErrorJson ''Required''\<rparr>,
      [CallParseRequirements ''sepolia'', CallParsePayload []])"
    by (simp add: zod_error_def unsigned_request_def)
  moreover
  from malformed_request_400 [of demo_library "request_on ''sepolia''" _ evm_env] c d
  have "take 2 (snd (verify_post demo_library evm_env (request_on ''sepolia''))) =
          [CallParseRequirements ''sepolia'', CallParsePayload ''signed'']
      \<and> take 2 (snd (settle_post demo_library evm_env (request_on ''sepolia''))) =
          [CallParseRequirements ''sepolia'', CallParsePayload ''signed'']"
    by (simp add: request_on_def)
  ultimately show ?thesis by simp
qed

section \<open>The health aggregation\<close>

lemma health_evm_loop_other:
  "n \<notin> fst ` set us \<Longrightarrow>
     map_of (fst (health_evm_loop L clock us st)) n = map_of (fst st) n"
proof (induction us arbitrary: st)
  case Nil
  then show ?case by simp
next
  case (Cons p us)
  obtain m u where p: "p = (m, u)" by (cases p)
  obtain cs t where st: "st = (cs, t)" by (cases st)
  from Cons.prems p have "n \<noteq> m" "n \<notin> fst ` set us" by auto
  with Cons.IH show ?case
    by (simp add: p st update_conv')
qed

lemma health_evm_loop_entry:
  "distinct (map fst us) \<Longrightarrow> (n, u) \<in> set us \<Longrightarrow> u \<noteq> [] \<Longrightarrow>
     \<exists>ms. map_of (fst (health_evm_loop L clock us st)) n
            = Some (evm_check (evm_probe L n u) ms)"
proof (induction us arbitrary: st)
  case Nil
  then show ?case by simp
next
  case (Cons p us)
  obtain m v where p: "p = (m, v)" by (cases p)
  obtain cs t where st: "st = (cs, t)" by (cases st)
  show ?case
  proof (cases "(n, u) = (m, v)")
    case True
    then have eq: "m = n" "v = u" by simp_all
    with Cons.prems p have "n \<notin> fst ` set us" by auto
    note rest = health_evm_loop_other [OF this]
    from Cons.prems(3)
    have "map_of (fst (health_evm_loop L clock (p # us) st)) n
            = Some (evm_check (evm_probe L n u) (clock (t + 1) - clock t))"
      by (simp add: p st eq update_conv' rest)
    then show ?thesis ..
  next
    case False
    with Cons.prems p have "(n, u) \<in> set us" "distinct (map fst us)" by auto
    from Cons.IH [OF this(2) this(1) Cons.prems(3)] show ?thesis
      by (simp add: p st)
  qed
qed

lemma probed_urls_wf:
  "distinct (map fst (probed_urls P))
   \<and> (\<forall>(n, u) \<in> set (probed_urls P). u \<noteq> [] \<and> n \<noteq> ''solana-devnet'')"
  by (simp add: probed_urls_def evm_rpcUrls_def x402Config_def)

lemma health_evm_probed:
  "health_evm L P clock st = health_evm_loop L clock (probed_urls P) st"
  by (simp add: health_evm_def probed_urls_def split: option.split)

lemma health_svm_other:
  "n \<noteq> ''solana-devnet'' \<Longrightarrow> map_of (fst (health_svm L P clock st)) n = map_of (fst st) n"
  by (cases st) (simp add: health_svm_def update_conv' split: sum.split)

lemma health_evm_entry:
  assumes "(n, u) \<in> set (probed_urls P)"
  shows "\<exists>ms. map_of (fst (health_svm L P clock (health_evm L P clock st))) n
               = Some (evm_check (evm_probe L n u) ms)"
proof -
  from probed_urls_wf [of P] assms have "u \<noteq> []" "n \<noteq> ''solana-devnet''"
    and d: "distinct (map fst (probed_urls P))" by auto
  from health_evm_loop_entry [OF d assms \<open>u \<noteq> []\<close>]
  obtain ms where "map_of (fst (health_evm_loop L clock (probed_urls P) st)) n
                     = Some (evm_check (evm_probe L n u) ms)"
    by blast
  then have "map_of (fst (health_svm L P clock (health_evm L P clock st))) n
          = Some (evm_check (evm_probe L n u) ms)"
    by (simp add: health_evm_probed health_svm_other [OF \<open>n \<noteq> ''solana-devnet''\<close>])
  then show ?thesis ..
qed

lemma health_svm_entry:
  assumes "SVM_RPC_URL P \<noteq> []" "SVM_PRIVATE_KEY P \<noteq> []"
  shows "(createSigner L ''solana-devnet'' (SVM_PRIVATE_KEY P) None = Inl e \<longrightarrow>
           (\<exists>ms. map_of (fst (health_svm L P clock st)) ''solana-devnet'' =
              Some \<lparr>healthy = False, latency = Some ms,
                    error = Some (message_or e ''Unknown error'')\<rparr>))
       \<and> (createSigner L ''solana-devnet'' (SVM_PRIVATE_KEY P) None = Inr s
            \<and> isSvmSignerWallet L s \<longrightarrow>
           (\<exists>ms. map_of (fst (health_svm L P clock st)) ''solana-devnet'' =
              Some \<lparr>healthy = True, latency = Some ms, error = None\<rparr>))"
  using assms by (cases st) (simp add: health_svm_def update_conv')

lemma health_rpc_response:
  "health_rpc_get L P clock =
     Responded
       \<lparr>statusCode =
          (if list_all (\<lambda>(n, c). healthy c)
                (fst (health_svm L P clock (health_evm L P clock ([], 0)))) then 200 else 503),
        body = ResultJson
          \<lparr>status =
             (if list_all (\<lambda>(n, c). healthy c)
                (fst (health_svm L P clock (health_evm L P clock ([], 0))))
              then ''healthy'' else ''degraded''),
           checks = fst (health_svm L P clock (health_evm L P clock ([], 0))),
           timestamp = clock (snd (health_svm L P clock (health_evm L P clock ([], 0))))\<rparr>\<rparr>"
  by (simp add: health_rpc_get_def Let_def split: prod.split)

lemma health_evm_loop_keys:
  "fst ` set (fst (health_evm_loop L clock us st))
     = fst ` set (fst st) \<union> fst ` set (filter (\<lambda>p. snd p \<noteq> []) us)"
proof (induction us arbitrary: st)
  case Nil
  then show ?case by simp
next
  case (Cons p us)
  obtain m u where p: "p = (m, u)" by (cases p)
  obtain cs t where st: "st = (cs, t)" by (cases st)
  show ?case
    by (auto simp add: p st Cons.IH dom_update)
qed

lemma health_evm_loop_distinct:
  "distinct (map fst (fst st)) \<Longrightarrow> distinct (map fst (fst (health_evm_loop L clock us st)))"
proof (induction us arbitrary: st)
  case Nil
  then show ?case by simp
next
  case (Cons p us)
  obtain m u where p: "p = (m, u)" by (cases p)
  obtain cs t where st: "st = (cs, t)" by (cases st)
  from Cons.prems show ?case
    by (simp add: p st Cons.IH distinct_update)
qed

lemma health_svm_keys:
  "fst ` set (fst (health_svm L P clock st))
     = fst ` set (fst st) \<union> (if svm_entry_written L P then {''solana-devnet''} else {})"
  by (cases st) (auto simp add: health_svm_def svm_entry_written_def dom_update split: sum.split)

lemma health_svm_distinct:
  "distinct (map fst (fst st)) \<Longrightarrow> distinct (map fst (fst (health_svm L P clock st)))"
  by (cases st) (simp add: health_svm_def distinct_update split: sum.split)

lemma probed_urls_nonempty: "filter (\<lambda>p. snd p \<noteq> []) (probed_urls P) = probed_urls P"
  using probed_urls_wf [of P] by (auto simp add: filter_id_conv)

lemma health_checks_keys:
  "fst ` set (fst (health_svm L P clock (health_evm L P clock ([], 0))))
     = fst ` set (probed_urls P) \<union> (if svm_entry_written L P then {''solana-devnet''} else {})"
  by (simp add: health_svm_keys health_evm_probed health_evm_loop_keys probed_urls_nonempty)

lemma health_checks_distinct:
  "distinct (map fst (fst (health_svm L P clock (health_evm L P clock ([], 0)))))"
  by (simp add: health_svm_distinct health_evm_probed health_evm_loop_distinct)

lemma health_svm_written:
  assumes "svm_entry_written L P"
  shows "\<exists>ms. map_of (fst (health_svm L P clock st)) ''solana-devnet'' =
           Some \<lparr>healthy = \<not> isl (createSigner L ''solana-devnet'' (SVM_PRIVATE_KEY P) None),
                 latency = Some ms,
                 error = (case createSigner L ''solana-devnet'' (SVM_PRIVATE_KEY P) None of
                            Inl e \<Rightarrow> Some (message_or e ''Unknown error'')
                          | Inr signer \<Rightarrow> None)\<rparr>"
  using assms
  by (cases st) (auto simp add: health_svm_def svm_entry_written_def update_conv' split: sum.splits)

lemma health_verdict:
  assumes cs: "cs = fst (health_svm L P clock (health_evm L P clock ([], 0)))"
  shows "(\<forall>(n, c) \<in> set cs. healthy c) \<longleftrightarrow>
           (\<forall>(n, u) \<in> set (probed_urls P). \<exists>b. evm_probe L n u = Inr b \<and> 0 < b)
         \<and> (SVM_RPC_URL P \<noteq> [] \<and> SVM_PRIVATE_KEY P \<noteq> [] \<longrightarrow>
              \<not> isl (createSigner L ''solana-devnet'' (SVM_PRIVATE_KEY P) None))"
    (is "?all \<longleftrightarrow> ?evm \<and> ?svm")
proof
  assume all: ?all
  have ?evm
  proof (clarify)
    fix n u
    assume nu: "(n, u) \<in> set (probed_urls P)"
    from health_evm_entry [OF nu, of L clock "([], 0)"] cs
    obtain ms where "map_of cs n = Some (evm_check (evm_probe L n u) ms)" by blast
    then have "(n, evm_check (evm_probe L n u) ms) \<in> set cs" by (rule map_of_SomeD)
    with all have "healthy (evm_check (evm_probe L n u) ms)" by blast
    then show "\<exists>b. evm_probe L n u = Inr b \<and> 0 < b"
      by (cases "evm_probe L n u") (simp_all add: evm_check_def)
  qed
  moreover have ?svm
  proof (intro impI notI)
    assume conf: "SVM_RPC_URL P \<noteq> [] \<and> SVM_PRIVATE_KEY P \<noteq> []"
      and thrown: "isl (createSigner L ''solana-devnet'' (SVM_PRIVATE_KEY P) None)"
    then have w: "svm_entry_written L P"
      by (cases "createSigner L ''solana-devnet'' (SVM_PRIVATE_KEY P) None")
         (simp_all add: svm_entry_written_def)
    from health_svm_written [OF w, of clock "health_evm L P clock ([], 0)"] cs thrown
    obtain c where "map_of cs ''solana-devnet'' = Some c" "\<not> healthy c" by auto
    then have "(''solana-devnet'', c) \<in> set cs" "\<not> healthy c"
      by (simp_all add: map_of_SomeD)
    with all show False by blast
  qed
  ultimately show "?evm \<and> ?svm" ..
next
  assume rhs: "?evm \<and> ?svm"
  have d: "distinct (map fst cs)" by (simp add: cs health_checks_distinct)
  have keys: "fst ` set cs
     = fst ` set (probed_urls P) \<union> (if svm_entry_written L P then {''solana-devnet''} else {})"
    by (simp add: cs health_checks_keys)
  show ?all
  proof (clarify)
    fix n c
    assume nc: "(n, c) \<in> set cs"
    with d have look: "map_of cs n = Some c" by simp
    from nc have "n \<in> fst ` set cs" by force
    with keys consider (evm) u where "(n, u) \<in> set (probed_urls P)"
      | (svm) "svm_entry_written L P" "n = ''solana-devnet''"
      by (auto split: if_splits)
    then show "healthy c"
    proof cases
      case evm
      from health_evm_entry [OF evm, of L clock "([], 0)"] cs look
      obtain ms where c: "c = evm_check (evm_probe L n u) ms" by auto
      from rhs evm obtain b where "evm_probe L n u = Inr b" "0 < b" by blast
      with c show ?thesis by (simp add: evm_check_def)
    next
      case svm
      from health_svm_written [OF svm(1), of clock "health_evm L P clock ([], 0)"] cs look svm(2)
      have "healthy c = (\<not> isl (createSigner L ''solana-devnet'' (SVM_PRIVATE_KEY P) None))"
        by auto
      moreover from svm(1) have "SVM_RPC_URL P \<noteq> [] \<and> SVM_PRIVATE_KEY P \<noteq> []"
        by (simp add: svm_entry_written_def)
      ultimately show ?thesis using rhs by blast
    qed
  qed
qed

text \<open>
  C5. The health handler always responds, whatever the probes do. With \<open>cs\<close> the entries
  it collected: the status code is 200 and the status \<open>"healthy"\<close> when every entry is
  healthy, and 503 and \<open>"degraded"\<close> otherwise. The entry of every probed EVM network is
  fixed by that network's own probe: a probe that throws leaves \<open>healthy: false\<close> with the
  message in \<open>error\<close>, a probe that returns leaves \<open>healthy\<close> as whether the block number
  is positive, with no \<open>error\<close>. The same holds for the SVM probe on \<open>solana-devnet\<close>.
  The entries are those of the probed networks and no others, one for each name: the EVM
  networks with a custom endpoint, and \<open>solana-devnet\<close> when its probe threw or gave an
  SVM signer. So every entry is healthy, and the answer is 200, exactly when every EVM
  probe returned a positive block number and the SVM probe, if it ran, did not throw.
\<close>

theorem health_aggregation:
  assumes "cs = fst (health_svm L P clock (health_evm L P clock ([], 0)))"
  shows "(\<exists>ts. health_rpc_get L P clock =
            Responded
              \<lparr>statusCode = (if (\<forall>(n, c) \<in> set cs. healthy c) then 200 else 503),
               body = ResultJson
                 \<lparr>status = (if (\<forall>(n, c) \<in> set cs. healthy c) then ''healthy'' else ''degraded''),
                  checks = cs, timestamp = ts\<rparr>\<rparr>)
       \<and> (\<forall>(n, u) \<in> set (probed_urls P).
            (\<forall>e. evm_probe L n u = Inl e \<longrightarrow>
               (\<exists>ms. map_of cs n =
                  Some \<lparr>healthy = False, latency = Some ms,
                        error = Some (message_or e ''Unknown error'')\<rparr>))
          \<and> (\<forall>b. evm_probe L n u = Inr b \<longrightarrow>
               (\<exists>ms. map_of cs n =
                  Some \<lparr>healthy = 0 < b, latency = Some ms, error = None\<rparr>)))
       \<and> (SVM_RPC_URL P \<noteq> [] \<and> SVM_PRIVATE_KEY P \<noteq> [] \<longrightarrow>
            (\<forall>e. createSigner L ''solana-devnet'' (SVM_PRIVATE_KEY P) None = Inl e \<longrightarrow>
               (\<exists>ms. map_of cs ''solana-devnet'' =
                  Some \<lparr>healthy = False, latency = Some ms,
                        error = Some (message_or e ''Unknown error'')\<rparr>))
          \<and> (\<forall>s. createSigner L ''solana-devnet'' (SVM_PRIVATE_KEY P) None = Inr s
                  \<and> isSvmSignerWallet L s \<longrightarrow>
               (\<exists>ms. map_of cs ''solana-devnet'' =
                  Some \<lparr>healthy = True, latency = Some ms, error = None\<rparr>)))
       \<and> distinct (map fst cs)
       \<and> fst ` set cs =
           fst ` set (probed_urls P)
             \<union> (if svm_entry_written L P then {''solana-devnet''} else {})
       \<and> ((\<forall>(n, c) \<in> set cs. healthy c) \<longleftrightarrow>
             (\<forall>(n, u) \<in> set (probed_urls P). \<exists>b. evm_probe L n u = Inr b \<and> 0 < b)
           \<and> (SVM_RPC_URL P \<noteq> [] \<and> SVM_PRIVATE_KEY P \<noteq> [] \<longrightarrow>
                \<not> isl (createSigner L ''solana-devnet'' (SVM_PRIVATE_KEY P) None)))"
proof (intro conjI)
  have "list_all (\<lambda>(n, c). healthy c) cs \<longleftrightarrow> (\<forall>(n, c) \<in> set cs. healthy c)"
    by (simp add: list_all_iff)
  with health_rpc_response [of L P clock] assms
  show "\<exists>ts. health_rpc_get L P clock =
            Responded
              \<lparr>statusCode = (if (\<forall>(n, c) \<in> set cs. healthy c) then 200 else 503),
               body = ResultJson
                 \<lparr>status = (if (\<forall>(n, c) \<in> set cs. healthy c) then ''healthy'' else ''degraded''),
                  checks = cs, timestamp = ts\<rparr>\<rparr>"
    by simp
next
  show "\<forall>(n, u) \<in> set (probed_urls P).
            (\<forall>e. evm_probe L n u = Inl e \<longrightarrow>
               (\<exists>ms. map_of cs n =
                  Some \<lparr>healthy = False, latency = Some ms,
                        error = Some (message_or e ''Unknown error'')\<rparr>))
          \<and> (\<forall>b. evm_probe L n u = Inr b \<longrightarrow>
               (\<exists>ms. map_of cs n =
                  Some \<lparr>healthy = 0 < b, latency = Some ms, error = None\<rparr>))"
  proof (clarify, intro conjI allI impI)
    fix n u e
    assume "(n, u) \<in> set (probed_urls P)" "evm_probe L n u = Inl e"
    with health_evm_entry [of n u P L clock "([], 0)"] assms
    show "\<exists>ms. map_of cs n =
                  Some \<lparr>healthy = False, latency = Some ms,
                        error = Some (message_or e ''Unknown error'')\<rparr>"
      by (simp add: evm_check_def)
  next
    fix n u b
    assume "(n, u) \<in> set (probed_urls P)" "evm_probe L n u = Inr b"
    with health_evm_entry [of n u P L clock "([], 0)"] assms
    show "\<exists>ms. map_of cs n = Some \<lparr>healthy = 0 < b, latency = Some ms, error = None\<rparr>"
      by (simp add: evm_check_def)
  qed
next
  show "SVM_RPC_URL P \<noteq> [] \<and> SVM_PRIVATE_KEY P \<noteq> [] \<longrightarrow>
            (\<forall>e. createSigner L ''solana-devnet'' (SVM_PRIVATE_KEY P) None = Inl e \<longrightarrow>
               (\<exists>ms. map_of cs ''solana-devnet'' =
                  Some \<lparr>healthy = False, latency = Some ms,
                        error = Some (message_or e ''Unknown error'')\<rparr>))
          \<and> (\<forall>s. createSigner L ''solana-devnet'' (SVM_PRIVATE_KEY P) None = Inr s
                  \<and> isSvmSignerWallet L s \<longrightarrow>
               (\<exists>ms. map_of cs ''solana-devnet'' =
                  Some \<lparr>healthy = True, latency = Some ms, error = None\<rparr>))"
    using health_svm_entry [of P L _ clock "health_evm L P clock ([], 0)"] assms
    by blast
next
  show "distinct (map fst cs)"
    by (simp add: assms health_checks_distinct)
next
  show "fst ` set cs =
           fst ` set (probed_urls P)
             \<union> (if svm_entry_written L P then {''solana-devnet''} else {})"
    unfolding assms by (rule health_checks_keys)
next
  show "(\<forall>(n, c) \<in> set cs. healthy c) \<longleftrightarrow>
             (\<forall>(n, u) \<in> set (probed_urls P). \<exists>b. evm_probe L n u = Inr b \<and> 0 < b)
           \<and> (SVM_RPC_URL P \<noteq> [] \<and> SVM_PRIVATE_KEY P \<noteq> [] \<longrightarrow>
                \<not> isl (createSigner L ''solana-devnet'' (SVM_PRIVATE_KEY P) None))"
    using assms by (rule health_verdict)
qed

theorem health_aggregation_witness:
  "(\<exists>ts. health_rpc_get outage_library both_env demo_clock =
      Responded \<lparr>statusCode = 503,
                 body = ResultJson \<lparr>status = ''degraded'', checks = outage_checks,
                                    timestamp = ts\<rparr>\<rparr>)
   \<and> (\<exists>ms. map_of outage_checks ''sepolia'' =
         Some \<lparr>healthy = False, latency = Some ms, error = Some ''request timed out''\<rparr>)
   \<and> (\<exists>ms. map_of outage_checks ''filecoin-calibration'' =
         Some \<lparr>healthy = 0 < (19::int), latency = Some ms, error = None\<rparr>)
   \<and> (\<exists>ms. map_of outage_checks ''solana-devnet'' =
         Some \<lparr>healthy = True, latency = Some ms, error = None\<rparr>)
   \<and> distinct (map fst outage_checks)
   \<and> fst ` set outage_checks = {''sepolia'', ''filecoin-calibration'', ''solana-devnet''}
   \<and> (\<exists>cs ts. health_rpc_get demo_library both_env demo_clock =
        Responded \<lparr>statusCode = 200,
                   body = ResultJson \<lparr>status = ''healthy'', checks = cs, timestamp = ts\<rparr>\<rparr>
        \<and> fst ` set cs = {''sepolia'', ''filecoin-calibration'', ''solana-devnet''})"
proof -
  have cs: "outage_checks =
      fst (health_svm outage_library both_env demo_clock
             (health_evm outage_library both_env demo_clock ([], 0)))"
    by (simp add: outage_checks_def health_svm_def health_evm_def evm_check_def evm_probe_def
          outage_library_def demo_clock_def demo_defs)
  have urls: "probed_urls both_env =
      [(''sepolia'', ''https://sepolia.example''),
       (''filecoin-calibration'', ''https://calibration.example'')]"
    by (simp add: probed_urls_def demo_defs)
  have probes:
    "evm_probe outage_library ''sepolia'' ''https://sepolia.example''
       = Inl (JsError ''request timed out'' ''Error: request timed out at fetch'')"
    "evm_probe outage_library ''filecoin-calibration'' ''https://calibration.example'' = Inr 19"
    "createSigner outage_library ''solana-devnet'' ''5vmKey'' None = Inr ''solana-devnet''"
    "isSvmSignerWallet outage_library ''solana-devnet''"
    by (simp_all add: evm_probe_def outage_library_def demo_library_def svm_announced_def)
  have written: "svm_entry_written outage_library both_env"
    by (simp add: svm_entry_written_def probes demo_keys demo_urls)
  note outage = health_aggregation [OF cs]
  from outage urls probes
  have unhealthy: "\<not> (\<forall>(n, c) \<in> set outage_checks. healthy c)"
    by simp
  from outage unhealthy urls probes written demo_keys(6) demo_urls(3)
  have first: "(\<exists>ts. health_rpc_get outage_library both_env demo_clock =
      Responded \<lparr>statusCode = 503,
                 body = ResultJson \<lparr>status = ''degraded'', checks = outage_checks,
                                    timestamp = ts\<rparr>\<rparr>)
   \<and> (\<exists>ms. map_of outage_checks ''sepolia'' =
         Some \<lparr>healthy = False, latency = Some ms, error = Some ''request timed out''\<rparr>)
   \<and> (\<exists>ms. map_of outage_checks ''filecoin-calibration'' =
         Some \<lparr>healthy = 0 < (19::int), latency = Some ms, error = None\<rparr>)
   \<and> (\<exists>ms. map_of outage_checks ''solana-devnet'' =
         Some \<lparr>healthy = True, latency = Some ms, error = None\<rparr>)
   \<and> distinct (map fst outage_checks)
   \<and> fst ` set outage_checks = {''sepolia'', ''filecoin-calibration'', ''solana-devnet''}"
    by (simp add: insert_commute del: map_of_eq_Some_iff)
  have demo_probes:
    "evm_probe demo_library ''sepolia'' ''https://sepolia.example'' = Inr 19"
    "evm_probe demo_library ''filecoin-calibration'' ''https://calibration.example'' = Inr 19"
    "createSigner demo_library ''solana-devnet'' ''5vmKey'' None = Inr ''solana-devnet''"
    "isSvmSignerWallet demo_library ''solana-devnet''"
    by (simp_all add: evm_probe_def demo_library_def svm_announced_def)
  have demo_written: "svm_entry_written demo_library both_env"
    by (simp add: svm_entry_written_def demo_probes demo_keys demo_urls)
  note demo = health_aggregation [OF refl, of demo_library both_env demo_clock]
  from demo urls demo_probes demo_keys(6) demo_urls(3)
  have all_healthy: "\<forall>(n, c) \<in> set (fst (health_svm demo_library both_env demo_clock
                        (health_evm demo_library both_env demo_clock ([], 0)))). healthy c"
    by simp
  from demo all_healthy urls demo_written
  have second: "\<exists>cs ts. health_rpc_get demo_library both_env demo_clock =
        Responded \<lparr>statusCode = 200,
                   body = ResultJson \<lparr>status = ''healthy'', checks = cs, timestamp = ts\<rparr>\<rparr>
        \<and> fst ` set cs = {''sepolia'', ''filecoin-calibration'', ''solana-devnet''}"
    by (auto simp add: insert_commute)
  from first second show ?thesis by (simp del: map_of_eq_Some_iff)
qed

section \<open>The capability announcement\<close>

text \<open>
  C6, at a failing input. With the SVM key set and a library whose \<open>createSigner\<close>
  throws, the handler's promise rejects with the thrown error: it sends no list at all,
  neither without the SVM entries nor with the EVM ones.
\<close>

theorem supported_rejects_when_signer_fails:
  "SVM_PRIVATE_KEY both_env = ''5vmKey''
   \<and> createSigner keyless_library ''solana-devnet'' ''5vmKey'' None
       = Inl (JsError ''invalid private key'' ''Error: invalid private key at createSigner'')
   \<and> supported_get keyless_library both_env
       = Rejected (JsError ''invalid private key'' ''Error: invalid private key at createSigner'')"
  by (simp add: supported_get_def keyless_library_def demo_defs)

text \<open>
  C7. Every entry of a list the announcement returns names one of the networks the handler
  pushes; an EVM name is there only when the EVM private key is non-empty and an SVM name
  only when the SVM private key is non-empty. When the library's registries hold the
  announced names, with the SVM names outside the EVM registry, the same holds for the
  family the dispatch handlers give the name.
\<close>

theorem announced_only_with_credential:
  assumes "supported_get L P = Responded r" and "body r = ResultJson b"
    and "k \<in> set (kinds b)"
  shows "kind_network k \<in> set evm_announced \<union> set svm_announced
       \<and> (kind_network k \<in> set evm_announced \<longrightarrow> EVM_PRIVATE_KEY P \<noteq> [])
       \<and> (kind_network k \<in> set svm_announced \<longrightarrow> SVM_PRIVATE_KEY P \<noteq> [])
       \<and> (set evm_announced \<subseteq> set (SupportedEVMNetworks L)
            \<and> set svm_announced \<subseteq> set (SupportedSVMNetworks L) - set (SupportedEVMNetworks L) \<longrightarrow>
           (classify L (kind_network k) = Some ''EVM'' \<longrightarrow> EVM_PRIVATE_KEY P \<noteq> [])
         \<and> (classify L (kind_network k) = Some ''SVM'' \<longrightarrow> SVM_PRIVATE_KEY P \<noteq> []))"
proof -
  have names: "kind_network k \<in> set evm_announced \<and> EVM_PRIVATE_KEY P \<noteq> []
          \<or> kind_network k \<in> set svm_announced \<and> SVM_PRIVATE_KEY P \<noteq> []"
    using assms
    by (auto simp add: supported_get_def Let_def evm_kind_def svm_kind_def
             split: if_splits sum.splits)
  have apart: "set evm_announced \<inter> set svm_announced = {}"
    by (simp add: evm_announced_def svm_announced_def)
  from names apart show ?thesis
    by (auto simp add: classify_def)
qed

theorem announced_only_with_credential_witness:
  "kind_network (evm_kind ''sepolia'') \<in> set evm_announced
   \<and> EVM_PRIVATE_KEY evm_env \<noteq> []
   \<and> classify demo_library (kind_network (evm_kind ''sepolia'')) = Some ''EVM''
   \<and> SVM_PRIVATE_KEY evm_env = []
   \<and> supported_get demo_library evm_env =
       Responded \<lparr>statusCode = 200, body = ResultJson \<lparr>kinds = map evm_kind evm_announced\<rparr>\<rparr>"
proof -
  have run: "supported_get demo_library evm_env =
       Responded \<lparr>statusCode = 200, body = ResultJson \<lparr>kinds = map evm_kind evm_announced\<rparr>\<rparr>"
    by (simp add: supported_get_def demo_keys)
  have b: "body \<lparr>statusCode = 200, body = ResultJson \<lparr>kinds = map evm_kind evm_announced\<rparr>\<rparr>
             = ResultJson \<lparr>kinds = map evm_kind evm_announced\<rparr>"
    by simp
  have k: "evm_kind ''sepolia'' \<in> set (kinds \<lparr>kinds = map evm_kind evm_announced\<rparr>)"
    by (simp add: evm_announced_def)
  have regs: "set evm_announced \<subseteq> set (SupportedEVMNetworks demo_library)
      \<and> set svm_announced \<subseteq> set (SupportedSVMNetworks demo_library)
                                 - set (SupportedEVMNetworks demo_library)"
    by (simp add: demo_registries) (simp add: evm_announced_def svm_announced_def)
  have c: "classify demo_library (kind_network (evm_kind ''sepolia'')) = Some ''EVM''"
    by (simp add: classify_def evm_kind_def demo_registries evm_announced_def)
  have n: "kind_network (evm_kind ''sepolia'') \<in> set evm_announced"
    by (simp add: evm_kind_def evm_announced_def)
  from announced_only_with_credential [OF run b k] regs c n run demo_keys(2)
  show ?thesis by simp
qed

section \<open>Endpoints and thrown values\<close>

text \<open>
  C8, as stated, at an SVM request. The environment sets a custom SVM endpoint, which is
  in the configuration, and both handlers create the signer for \<open>solana-devnet\<close> with no
  endpoint argument.
\<close>

theorem svm_provisioning_ignores_rpc_override:
  "SVM_RPC_URL svm_env = ''https://solana.example''
   \<and> x402Config svm_env
       = Some \<lparr>svmConfig = Some \<lparr>rpcUrl = ''https://solana.example''\<rparr>, evmConfig = None\<rparr>
   \<and> filter provisioning (snd (verify_post demo_library svm_env (request_on ''solana-devnet'')))
       = [CallCreateSigner ''solana-devnet'' ''5vmKey'' None]
   \<and> filter provisioning (snd (settle_post demo_library svm_env (request_on ''solana-devnet'')))
       = [CallCreateSigner ''solana-devnet'' ''5vmKey'' None]"
  by (simp add: handler_defs demo_defs)

lemma custom_rpcUrl_env:
  "custom_rpcUrl (x402Config P) n =
     (if n = ''sepolia'' \<and> SEPOLIA_RPC_URL P \<noteq> [] then Some (SEPOLIA_RPC_URL P)
      else if n = ''filecoin-calibration'' \<and> FILECOIN_CALIBRATION_RPC_URL P \<noteq> []
      then Some (FILECOIN_CALIBRATION_RPC_URL P)
      else None)"
  by (simp add: custom_rpcUrl_def evm_rpcUrls_def x402Config_def)

text \<open>
  C8, amended. For a request that passes both schemas on an EVM network with the EVM key
  set, the one provisioning call of verify (a connected client) and of settle (a signer)
  carries the custom endpoint of that network when one is set, which is possible for
  \<open>sepolia\<close> and \<open>filecoin-calibration\<close> only, and no endpoint otherwise, leaving the
  library to resolve its default. On an SVM network with the SVM key set the one
  provisioning call carries no endpoint, whether or not a custom SVM endpoint is set; the
  only other network-touching call of the run is the external verify or settle, whose
  last argument is the configuration object, and that object holds the custom SVM
  endpoint when one is set.
\<close>

theorem provisioning_endpoint:
  assumes "PaymentRequirementsSchema_parse L (paymentRequirements req) = Inr reqs"
    and "PaymentPayloadSchema_parse L (paymentPayload req) = Inr payload"
  shows "(network reqs \<in> set (SupportedEVMNetworks L) \<and> EVM_PRIVATE_KEY P \<noteq> [] \<longrightarrow>
            filter provisioning (snd (verify_post L P req)) =
              [CallCreateConnectedClient (network reqs)
                 (if network reqs = ''sepolia'' \<and> SEPOLIA_RPC_URL P \<noteq> []
                  then Some (SEPOLIA_RPC_URL P)
                  else if network reqs = ''filecoin-calibration''
                          \<and> FILECOIN_CALIBRATION_RPC_URL P \<noteq> []
                  then Some (FILECOIN_CALIBRATION_RPC_URL P)
                  else None)]
          \<and> filter provisioning (snd (settle_post L P req)) =
              [CallCreateSigner (network reqs) (EVM_PRIVATE_KEY P)
                 (if network reqs = ''sepolia'' \<and> SEPOLIA_RPC_URL P \<noteq> []
                  then Some (SEPOLIA_RPC_URL P)
                  else if network reqs = ''filecoin-calibration''
                          \<and> FILECOIN_CALIBRATION_RPC_URL P \<noteq> []
                  then Some (FILECOIN_CALIBRATION_RPC_URL P)
                  else None)])
       \<and> (network reqs \<notin> set (SupportedEVMNetworks L)
            \<and> network reqs \<in> set (SupportedSVMNetworks L) \<and> SVM_PRIVATE_KEY P \<noteq> [] \<longrightarrow>
            filter provisioning (snd (verify_post L P req)) =
              [CallCreateSigner (network reqs) (SVM_PRIVATE_KEY P) None]
          \<and> filter provisioning (snd (settle_post L P req)) =
              [CallCreateSigner (network reqs) (SVM_PRIVATE_KEY P) None])
       \<and> (network reqs \<notin> set (SupportedEVMNetworks L)
            \<and> network reqs \<in> set (SupportedSVMNetworks L) \<and> SVM_PRIVATE_KEY P \<noteq> [] \<longrightarrow>
            snd (verify_post L P req) =
              [CallParseRequirements (paymentRequirements req),
               CallParsePayload (paymentPayload req),
               CallCreateSigner (network reqs) (SVM_PRIVATE_KEY P) None] @
              (case createSigner L (network reqs) (SVM_PRIVATE_KEY P) None of
                 Inl e \<Rightarrow> []
               | Inr signer \<Rightarrow> [CallVerify (Signer signer) payload reqs (x402Config P)])
          \<and> snd (settle_post L P req) =
              [CallParseRequirements (paymentRequirements req),
               CallParsePayload (paymentPayload req),
               CallCreateSigner (network reqs) (SVM_PRIVATE_KEY P) None] @
              (case createSigner L (network reqs) (SVM_PRIVATE_KEY P) None of
                 Inl e \<Rightarrow> []
               | Inr signer \<Rightarrow> [CallSettle signer payload reqs (x402Config P)]))
       \<and> (SVM_RPC_URL P \<noteq> [] \<longrightarrow>
            map_option svmConfig (x402Config P) = Some (Some \<lparr>rpcUrl = SVM_RPC_URL P\<rparr>))"
proof -
  have evm: "filter provisioning (snd (verify_post L P req)) =
               [CallCreateConnectedClient (network reqs)
                  (custom_rpcUrl (x402Config P) (network reqs))]
           \<and> filter provisioning (snd (settle_post L P req)) =
               [CallCreateSigner (network reqs) (EVM_PRIVATE_KEY P)
                  (custom_rpcUrl (x402Config P) (network reqs))]"
    if "network reqs \<in> set (SupportedEVMNetworks L)" "EVM_PRIVATE_KEY P \<noteq> []"
    using assms that by (simp add: handler_defs Let_def split: sum.split)
  have svm: "filter provisioning (snd (verify_post L P req)) =
               [CallCreateSigner (network reqs) (SVM_PRIVATE_KEY P) None]
           \<and> filter provisioning (snd (settle_post L P req)) =
               [CallCreateSigner (network reqs) (SVM_PRIVATE_KEY P) None]"
    if "network reqs \<notin> set (SupportedEVMNetworks L)"
       "network reqs \<in> set (SupportedSVMNetworks L)" "SVM_PRIVATE_KEY P \<noteq> []"
    using assms that by (simp add: handler_defs Let_def split: sum.split)
  have ops: "snd (verify_post L P req) =
              [CallParseRequirements (paymentRequirements req),
               CallParsePayload (paymentPayload req),
               CallCreateSigner (network reqs) (SVM_PRIVATE_KEY P) None] @
              (case createSigner L (network reqs) (SVM_PRIVATE_KEY P) None of
                 Inl e \<Rightarrow> []
               | Inr signer \<Rightarrow> [CallVerify (Signer signer) payload reqs (x402Config P)])
          \<and> snd (settle_post L P req) =
              [CallParseRequirements (paymentRequirements req),
               CallParsePayload (paymentPayload req),
               CallCreateSigner (network reqs) (SVM_PRIVATE_KEY P) None] @
              (case createSigner L (network reqs) (SVM_PRIVATE_KEY P) None of
                 Inl e \<Rightarrow> []
               | Inr signer \<Rightarrow> [CallSettle signer payload reqs (x402Config P)])"
    if "network reqs \<notin> set (SupportedEVMNetworks L)"
       "network reqs \<in> set (SupportedSVMNetworks L)" "SVM_PRIVATE_KEY P \<noteq> []"
    using assms that by (simp add: handler_defs Let_def split: sum.split)
  have cfg: "map_option svmConfig (x402Config P) = Some (Some \<lparr>rpcUrl = SVM_RPC_URL P\<rparr>)"
    if "SVM_RPC_URL P \<noteq> []"
    using that by (simp add: x402Config_def)
  from evm svm ops cfg show ?thesis
    unfolding custom_rpcUrl_env by blast
qed

theorem provisioning_endpoint_witness:
  "filter provisioning (snd (verify_post demo_library both_env (request_on ''filecoin-calibration'')))
     = [CallCreateConnectedClient ''filecoin-calibration'' (Some ''https://calibration.example'')]
   \<and> filter provisioning (snd (settle_post demo_library both_env (request_on ''filecoin-calibration'')))
     = [CallCreateSigner ''filecoin-calibration'' ''0xe1'' (Some ''https://calibration.example'')]
   \<and> filter provisioning (snd (verify_post demo_library both_env (request_on ''base'')))
     = [CallCreateConnectedClient ''base'' None]
   \<and> filter provisioning (snd (settle_post demo_library both_env (request_on ''solana-devnet'')))
     = [CallCreateSigner ''solana-devnet'' ''5vmKey'' None]
   \<and> snd (verify_post demo_library both_env (request_on ''solana-devnet''))
     = [CallParseRequirements ''solana-devnet'', CallParsePayload ''signed'',
        CallCreateSigner ''solana-devnet'' ''5vmKey'' None,
        CallVerify (Signer ''solana-devnet'') ''signed'' \<lparr>network = ''solana-devnet''\<rparr>
          (x402Config both_env)]
   \<and> snd (settle_post demo_library both_env (request_on ''solana-devnet''))
     = [CallParseRequirements ''solana-devnet'', CallParsePayload ''signed'',
        CallCreateSigner ''solana-devnet'' ''5vmKey'' None,
        CallSettle ''solana-devnet'' ''signed'' \<lparr>network = ''solana-devnet''\<rparr>
          (x402Config both_env)]
   \<and> map_option svmConfig (x402Config both_env)
     = Some (Some \<lparr>rpcUrl = ''https://solana.example''\<rparr>)"
proof -
  have p: "\<And>n. n \<noteq> [] \<Longrightarrow>
      PaymentRequirementsSchema_parse demo_library (paymentRequirements (request_on n))
        = Inr \<lparr>network = n\<rparr>"
    by (simp add: demo_parse_requirements)
  from provisioning_endpoint [OF p demo_parse_payload, of "''filecoin-calibration''" both_env]
  have "filter provisioning
          (snd (verify_post demo_library both_env (request_on ''filecoin-calibration'')))
     = [CallCreateConnectedClient ''filecoin-calibration'' (Some ''https://calibration.example'')]
   \<and> filter provisioning
          (snd (settle_post demo_library both_env (request_on ''filecoin-calibration'')))
     = [CallCreateSigner ''filecoin-calibration'' ''0xe1'' (Some ''https://calibration.example'')]"
    by (simp add: demo_registries demo_keys demo_urls evm_announced_def)
  moreover
  from provisioning_endpoint [OF p demo_parse_payload, of "''base''" both_env]
  have "filter provisioning (snd (verify_post demo_library both_env (request_on ''base'')))
     = [CallCreateConnectedClient ''base'' None]"
    by (simp add: demo_registries demo_keys demo_urls evm_announced_def)
  moreover
  have signer: "createSigner demo_library = (\<lambda>n k u. Inr n)"
    by (simp add: demo_library_def)
  from provisioning_endpoint [OF p demo_parse_payload, of "''solana-devnet''" both_env]
  have "filter provisioning (snd (settle_post demo_library both_env (request_on ''solana-devnet'')))
     = [CallCreateSigner ''solana-devnet'' ''5vmKey'' None]
   \<and> snd (verify_post demo_library both_env (request_on ''solana-devnet''))
     = [CallParseRequirements ''solana-devnet'', CallParsePayload ''signed'',
        CallCreateSigner ''solana-devnet'' ''5vmKey'' None,
        CallVerify (Signer ''solana-devnet'') ''signed'' \<lparr>network = ''solana-devnet''\<rparr>
          (x402Config both_env)]
   \<and> snd (settle_post demo_library both_env (request_on ''solana-devnet''))
     = [CallParseRequirements ''solana-devnet'', CallParsePayload ''signed'',
        CallCreateSigner ''solana-devnet'' ''5vmKey'' None,
        CallSettle ''solana-devnet'' ''signed'' \<lparr>network = ''solana-devnet''\<rparr>
          (x402Config both_env)]
   \<and> map_option svmConfig (x402Config both_env)
     = Some (Some \<lparr>rpcUrl = ''https://solana.example''\<rparr>)"
    by (simp add: demo_registries demo_keys demo_urls evm_announced_def svm_announced_def
          signer request_on_def)
  ultimately show ?thesis by simp
qed

text \<open>
  C9. For a request that passes both schemas, whatever is thrown while the client or
  signer is created or while the external verify or settle runs is caught: the handler
  answers 400 with a body that holds one string, the message of the error when an
  \<open>Error\<close> was thrown (its stack is not part of the body) and the fixed text
  \<open>"Invalid request"\<close> or \<open>"Settlement failed"\<close> for any other thrown value. Both handlers
  send a response on every request; their promises never reject.
\<close>

theorem thrown_values_become_400:
  assumes "PaymentRequirementsSchema_parse L (paymentRequirements req) = Inr reqs"
    and "PaymentPayloadSchema_parse L (paymentPayload req) = Inr payload"
  shows "(network reqs \<in> set (SupportedEVMNetworks L) \<and> EVM_PRIVATE_KEY P \<noteq> [] \<longrightarrow>
           (createConnectedClient L (network reqs) (custom_rpcUrl (x402Config P) (network reqs))
              = Inl e \<longrightarrow>
            fst (verify_post L P req) =
              Responded \<lparr>statusCode = 400, body = ErrorJson (message_or e ''Invalid request'')\<rparr>)
         \<and> (createConnectedClient L (network reqs) (custom_rpcUrl (x402Config P) (network reqs))
              = Inr client
            \<and> verify L (ConnectedClient client) payload reqs (x402Config P) = Inl e \<longrightarrow>
            fst (verify_post L P req) =
              Responded \<lparr>statusCode = 400, body = ErrorJson (message_or e ''Invalid request'')\<rparr>)
         \<and> (createSigner L (network reqs) (EVM_PRIVATE_KEY P)
              (custom_rpcUrl (x402Config P) (network reqs)) = Inl e \<longrightarrow>
            fst (settle_post L P req) =
              Responded \<lparr>statusCode = 400, body = ErrorJson (message_or e ''Settlement failed'')\<rparr>)
         \<and> (createSigner L (network reqs) (EVM_PRIVATE_KEY P)
              (custom_rpcUrl (x402Config P) (network reqs)) = Inr signer
            \<and> settle L signer payload reqs (x402Config P) = Inl e \<longrightarrow>
            fst (settle_post L P req) =
              Responded \<lparr>statusCode = 400, body = ErrorJson (message_or e ''Settlement failed'')\<rparr>))
       \<and> (network reqs \<notin> set (SupportedEVMNetworks L)
            \<and> network reqs \<in> set (SupportedSVMNetworks L) \<and> SVM_PRIVATE_KEY P \<noteq> [] \<longrightarrow>
           (createSigner L (network reqs) (SVM_PRIVATE_KEY P) None = Inl e \<longrightarrow>
            fst (verify_post L P req) =
              Responded \<lparr>statusCode = 400, body = ErrorJson (message_or e ''Invalid request'')\<rparr>
          \<and> fst (settle_post L P req) =
              Responded \<lparr>statusCode = 400, body = ErrorJson (message_or e ''Settlement failed'')\<rparr>)
         \<and> (createSigner L (network reqs) (SVM_PRIVATE_KEY P) None = Inr signer
            \<and> verify L (Signer signer) payload reqs (x402Config P) = Inl e \<longrightarrow>
            fst (verify_post L P req) =
              Responded \<lparr>statusCode = 400, body = ErrorJson (message_or e ''Invalid request'')\<rparr>)
         \<and> (createSigner L (network reqs) (SVM_PRIVATE_KEY P) None = Inr signer
            \<and> settle L signer payload reqs (x402Config P) = Inl e \<longrightarrow>
            fst (settle_post L P req) =
              Responded \<lparr>statusCode = 400, body = ErrorJson (message_or e ''Settlement failed'')\<rparr>))
       \<and> message_or (JsError m st) fallback = m
       \<and> (\<exists>r. fst (verify_post L P req) = Responded r)
       \<and> (\<exists>r. fst (settle_post L P req) = Responded r)"
proof -
  have "\<exists>r. fst (verify_post L P req) = Responded r"
    by (cases "verify_try L P req"; cases "fst (verify_try L P req)")
       (simp_all add: verify_post_def)
  moreover have "\<exists>r. fst (settle_post L P req) = Responded r"
    by (cases "settle_try L P req"; cases "fst (settle_try L P req)")
       (simp_all add: settle_post_def)
  ultimately show ?thesis
    using assms by (simp add: handler_defs)
qed

theorem thrown_values_become_400_witness:
  "fst (verify_post faulty_library both_env (request_on ''base'')) =
     Responded \<lparr>statusCode = 400, body = ErrorJson ''connect ECONNREFUSED''\<rparr>
   \<and> fst (verify_post faulty_library both_env (forged_request ''sepolia'')) =
     Responded \<lparr>statusCode = 400, body = ErrorJson ''invalid signature''\<rparr>
   \<and> fst (settle_post faulty_library both_env (request_on ''polygon'')) =
     Responded \<lparr>statusCode = 400, body = ErrorJson ''invalid private key''\<rparr>
   \<and> fst (settle_post faulty_library both_env (forged_request ''sepolia'')) =
     Responded \<lparr>statusCode = 400, body = ErrorJson ''Settlement failed''\<rparr>
   \<and> fst (verify_post faulty_library both_env (request_on ''solana'')) =
     Responded \<lparr>statusCode = 400, body = ErrorJson ''invalid private key''\<rparr>
   \<and> fst (settle_post faulty_library both_env (request_on ''solana'')) =
     Responded \<lparr>statusCode = 400, body = ErrorJson ''invalid private key''\<rparr>
   \<and> fst (verify_post faulty_library both_env (forged_request ''solana-devnet'')) =
     Responded \<lparr>statusCode = 400, body = ErrorJson ''invalid signature''\<rparr>
   \<and> fst (settle_post faulty_library both_env (forged_request ''solana-devnet'')) =
     Responded \<lparr>statusCode = 400, body = ErrorJson ''Settlement failed''\<rparr>"
proof -
  have p: "\<And>n. n \<noteq> [] \<Longrightarrow>
      PaymentRequirementsSchema_parse faulty_library (paymentRequirements (request_on n))
        = Inr \<lparr>network = n\<rparr>
    \<and> PaymentPayloadSchema_parse faulty_library (paymentPayload (request_on n)) = Inr ''signed''
    \<and> PaymentRequirementsSchema_parse faulty_library (paymentRequirements (forged_request n))
        = Inr \<lparr>network = n\<rparr>
    \<and> PaymentPayloadSchema_parse faulty_library (paymentPayload (forged_request n)) = Inr ''forged''"
    by (simp add: faulty_defs)
  have base: "fst (verify_post faulty_library both_env (request_on ''base'')) =
     Responded \<lparr>statusCode = 400, body = ErrorJson ''connect ECONNREFUSED''\<rparr>"
    using thrown_values_become_400 [of faulty_library "request_on ''base''"
        "\<lparr>network = ''base''\<rparr>" "''signed''" both_env
        "JsError ''connect ECONNREFUSED'' ''Error: connect ECONNREFUSED at TCP''"]
      p [of "''base''"]
    by (simp add: faulty_defs)
  have sig: "fst (verify_post faulty_library both_env (forged_request ''sepolia'')) =
     Responded \<lparr>statusCode = 400, body = ErrorJson ''invalid signature''\<rparr>"
    using thrown_values_become_400 [of faulty_library "forged_request ''sepolia''"
        "\<lparr>network = ''sepolia''\<rparr>" "''forged''" both_env
        "JsError ''invalid signature'' ''Error: invalid signature at verify''"
        "(''sepolia'', Some ''https://sepolia.example'')"]
      p [of "''sepolia''"]
    by (simp add: faulty_defs)
  have key: "fst (settle_post faulty_library both_env (request_on ''polygon'')) =
     Responded \<lparr>statusCode = 400, body = ErrorJson ''invalid private key''\<rparr>"
    using thrown_values_become_400 [of faulty_library "request_on ''polygon''"
        "\<lparr>network = ''polygon''\<rparr>" "''signed''" both_env
        "JsError ''invalid private key'' ''Error: invalid private key at createSigner''"]
      p [of "''polygon''"]
    by (simp add: faulty_defs)
  have funds: "fst (settle_post faulty_library both_env (forged_request ''sepolia'')) =
     Responded \<lparr>statusCode = 400, body = ErrorJson ''Settlement failed''\<rparr>"
    using thrown_values_become_400 [of faulty_library "forged_request ''sepolia''"
        "\<lparr>network = ''sepolia''\<rparr>" "''forged''" both_env
        "Thrown ''insufficient funds''" _ "''sepolia''"]
      p [of "''sepolia''"]
    by (simp add: faulty_defs)
  have svm_key: "fst (verify_post faulty_library both_env (request_on ''solana'')) =
     Responded \<lparr>statusCode = 400, body = ErrorJson ''invalid private key''\<rparr>
   \<and> fst (settle_post faulty_library both_env (request_on ''solana'')) =
     Responded \<lparr>statusCode = 400, body = ErrorJson ''invalid private key''\<rparr>"
    using thrown_values_become_400 [of faulty_library "request_on ''solana''"
        "\<lparr>network = ''solana''\<rparr>" "''signed''" both_env
        "JsError ''invalid private key'' ''Error: invalid private key at createSigner''"]
      p [of "''solana''"]
    by (simp add: faulty_defs)
  have svm_sig: "fst (verify_post faulty_library both_env (forged_request ''solana-devnet'')) =
     Responded \<lparr>statusCode = 400, body = ErrorJson ''invalid signature''\<rparr>"
    using thrown_values_become_400 [of faulty_library "forged_request ''solana-devnet''"
        "\<lparr>network = ''solana-devnet''\<rparr>" "''forged''" both_env
        "JsError ''invalid signature'' ''Error: invalid signature at verify''" _ "''solana-devnet''"]
      p [of "''solana-devnet''"]
    by (simp add: faulty_defs)
  have svm_funds: "fst (settle_post faulty_library both_env (forged_request ''solana-devnet'')) =
     Responded \<lparr>statusCode = 400, body = ErrorJson ''Settlement failed''\<rparr>"
    using thrown_values_become_400 [of faulty_library "forged_request ''solana-devnet''"
        "\<lparr>network = ''solana-devnet''\<rparr>" "''forged''" both_env
        "Thrown ''insufficient funds''" _ "''solana-devnet''"]
      p [of "''solana-devnet''"]
    by (simp add: faulty_defs)
  from base sig key funds svm_key svm_sig svm_funds show ?thesis by simp
qed

text \<open>
  C10. When no probe runs (no EVM endpoint is set or the EVM key is empty, and the SVM
  endpoint or the SVM key is empty) the health handler answers 200 with the status
  \<open>"healthy"\<close> and an empty \<open>checks\<close> object.
\<close>

theorem no_probe_is_healthy:
  assumes "(SEPOLIA_RPC_URL P = [] \<and> FILECOIN_CALIBRATION_RPC_URL P = []) \<or> EVM_PRIVATE_KEY P = []"
    and "SVM_RPC_URL P = [] \<or> SVM_PRIVATE_KEY P = []"
  shows "health_rpc_get L P clock =
           Responded \<lparr>statusCode = 200,
                      body = ResultJson \<lparr>status = ''healthy'', checks = [], timestamp = clock 0\<rparr>\<rparr>"
proof -
  have "health_evm L P clock ([], 0) = ([], 0)"
    using assms(1) by (auto simp add: health_evm_def evm_rpcUrls_def x402Config_def)
  moreover have "health_svm L P clock ([], 0) = ([], 0)"
    using assms(2) by (auto simp add: health_svm_def)
  ultimately show ?thesis
    by (simp add: health_rpc_get_def)
qed

theorem no_probe_is_healthy_witness:
  "health_rpc_get demo_library bare_env demo_clock =
     Responded \<lparr>statusCode = 200,
                body = ResultJson \<lparr>status = ''healthy'', checks = [], timestamp = 1000\<rparr>\<rparr>
   \<and> health_rpc_get faulty_library mismatched_env demo_clock =
     Responded \<lparr>statusCode = 200,
                body = ResultJson \<lparr>status = ''healthy'', checks = [], timestamp = 1000\<rparr>\<rparr>"
proof -
  have a: "(SEPOLIA_RPC_URL bare_env = [] \<and> FILECOIN_CALIBRATION_RPC_URL bare_env = [])
           \<or> EVM_PRIVATE_KEY bare_env = []"
    and b: "SVM_RPC_URL bare_env = [] \<or> SVM_PRIVATE_KEY bare_env = []"
    by (simp_all add: bare_env_def env_defs)
  have c: "(SEPOLIA_RPC_URL mismatched_env = [] \<and> FILECOIN_CALIBRATION_RPC_URL mismatched_env = [])
           \<or> EVM_PRIVATE_KEY mismatched_env = []"
    and d: "SVM_RPC_URL mismatched_env = [] \<or> SVM_PRIVATE_KEY mismatched_env = []"
    by (simp_all add: mismatched_env_def env_defs)
  from no_probe_is_healthy [OF a b, of demo_library demo_clock]
       no_probe_is_healthy [OF c d, of faulty_library demo_clock]
  show ?thesis by (simp add: demo_clock_def)
qed

end
